theory Spec2Isabelle
  imports Main "HOL-Library.Sublist"
begin

section \<open>JavaScript values\<close>

text \<open>
  The executor of \<^verbatim>\<open>src/executors/deploy/deploy.impl.ts\<close> builds an argument object whose
  values are strings, numbers, booleans, \<^verbatim>\<open>null\<close> or \<^verbatim>\<open>undefined\<close>. An optional field of the
  option object is an \<open>option\<close>: \<open>None\<close> is the absent (\<^verbatim>\<open>undefined\<close>) field. The numeric
  fields are counts and seconds; the model takes them as integers, which JavaScript writes in
  plain decimal. A string of the model is the UTF-8 encoding of the JavaScript string, one
  \<open>char\<close> for each byte: the tests that the executors make on a string (being empty, being
  equal to another, holding \<^verbatim>\<open>.\<close>, \<^verbatim>\<open>=\<close> or \<^verbatim>\<open>:\<close>) and the joining of strings read the
  same on the encoding.
\<close>

datatype jsval = Undefined | Null | Bool bool | Num int | Str string

text \<open>\<^verbatim>\<open>Boolean(v)\<close>, the test of \<^verbatim>\<open>if (v)\<close>, \<^verbatim>\<open>!v\<close>, \<^verbatim>\<open>v && w\<close> and \<^verbatim>\<open>filter(Boolean)\<close>.\<close>

fun truthy :: "jsval \<Rightarrow> bool" where
  "truthy Undefined = False"
| "truthy Null = False"
| "truthy (Bool b) = b"
| "truthy (Num n) = (n \<noteq> 0)"
| "truthy (Str s) = (s \<noteq> [])"

text \<open>\<^verbatim>\<open>a && b\<close> and \<^verbatim>\<open>a ?? b\<close>.\<close>

definition jsAnd :: "jsval \<Rightarrow> jsval \<Rightarrow> jsval" where
  "jsAnd a b = (if truthy a then b else a)"

definition nullish :: "jsval \<Rightarrow> jsval \<Rightarrow> jsval" where
  "nullish a b = (if a = Null \<or> a = Undefined then b else a)"

fun ofString :: "string option \<Rightarrow> jsval" where
  "ofString None = Undefined"
| "ofString (Some s) = Str s"

fun ofNumber :: "int option \<Rightarrow> jsval" where
  "ofNumber None = Undefined"
| "ofNumber (Some n) = Num n"

fun ofBoolean :: "bool option \<Rightarrow> jsval" where
  "ofBoolean None = Undefined"
| "ofBoolean (Some b) = Bool b"

text \<open>A variable that holds a string or \<^verbatim>\<open>null\<close> (\<^verbatim>\<open>let packageVersion: string | null\<close>).\<close>

fun ofNullable :: "string option \<Rightarrow> jsval" where
  "ofNullable None = Null"
| "ofNullable (Some s) = Str s"

text \<open>The template literal \<^verbatim>\<open>`${n}`\<close> of an integer: its decimal digits, with a sign.\<close>

fun digitsOf :: "nat \<Rightarrow> string" where
  "digitsOf n =
     (if n < 10 then [''0123456789'' ! n]
      else digitsOf (n div 10) @ [''0123456789'' ! (n mod 10)])"

definition numberToString :: "int \<Rightarrow> string" where
  "numberToString i = (if i < 0 then ''-'' @ digitsOf (nat (- i)) else digitsOf (nat i))"

text \<open>\<^verbatim>\<open>String(v)\<close> of an optional string: \<^verbatim>\<open>String(undefined)\<close> is the word itself.\<close>

fun stringOf :: "string option \<Rightarrow> string" where
  "stringOf None = ''undefined''"
| "stringOf (Some s) = s"

text \<open>\<^verbatim>\<open>parts.join(' ')\<close>.\<close>

fun joinWith :: "string \<Rightarrow> string list \<Rightarrow> string" where
  "joinWith sep [] = []"
| "joinWith sep [x] = x"
| "joinWith sep (x # y # ys) = x @ sep @ joinWith sep (y # ys)"

text \<open>\<^verbatim>\<open>s.replace(/\./g, '-')\<close>: every dot becomes a hyphen.\<close>

definition replaceDots :: "string \<Rightarrow> string" where
  "replaceDots s = map (\<lambda>c. if c = CHR ''.'' then CHR ''-'' else c) s"

section \<open>The option object and the executor context\<close>

datatype manifestKind = node | python

datatype executionEnvironmentKind = gen1 | gen2

fun executionEnvironmentName :: "executionEnvironmentKind \<Rightarrow> string" where
  "executionEnvironmentName gen1 = ''gen1''"
| "executionEnvironmentName gen2 = ''gen2''"

datatype vpcEgressKind = all_traffic | private_ranges_only

fun vpcEgressName :: "vpcEgressKind \<Rightarrow> string" where
  "vpcEgressName all_traffic = ''all-traffic''"
| "vpcEgressName private_ranges_only = ''private-ranges-only''"

datatype buildWithKind = artifact_registry

text \<open>
  \<^verbatim>\<open>interface ExecutorSchema extends ContainerFlags\<close> (lines 9 to 44). The interface
  \<^verbatim>\<open>ContainerFlags\<close> is declared in \<^verbatim>\<open>./utils/get-container-flags\<close>, which is not among the
  sources: it is the type parameter \<open>'c\<close>, and the field \<open>containerFlags\<close> is the inherited
  part of the option object, the part \<^verbatim>\<open>getContainerFlags(options, ...)\<close> can read.
\<close>

record 'c ExecutorSchema =
  containerFlags :: 'c
  name :: "string option"
  buildTarget :: "string option"
  dockerFile :: string
  project :: string
  tag :: "string option"
  region :: string
  allowUnauthenticated :: "bool option"
  concurrency :: "int option"
  maxInstances :: "int option"
  minInstances :: "int option"
  cloudSqlInstance :: "string option"
  logsDir :: "string option"
  serviceAccount :: "string option"
  tagWithVersion :: "bool option"
  manifestType :: "manifestKind option"
  revisionSuffix :: "string option"
  buildWith :: "buildWithKind option"
  noTraffic :: "bool option"
  timeout :: "int option"
  cpuBoost :: "bool option"
  ingress :: "string option"
  executionEnvironment :: "executionEnvironmentKind option"
  vpcConnector :: "string option"
  vpcEgress :: "vpcEgressKind option"
  volumeName :: "string option"
  sidecars :: "'c list option"
  dryRun :: "bool option"

text \<open>
  The part of the build system's \<^verbatim>\<open>ExecutorContext\<close> the executors read: the workspace root,
  the name of the project being deployed and the project table. \<open>buildOutputPath\<close> is
  \<^verbatim>\<open>targets?.build?.options?.outputPath\<close>, \<open>None\<close> when a link of that chain is missing.
\<close>

record ProjectConfiguration =
  root :: string
  sourceRoot :: "string option"
  buildOutputPath :: "string option"

record ExecutorContext =
  workspaceRoot :: string
  projectName :: "string option"
  projects :: "string \<Rightarrow> ProjectConfiguration option"

section \<open>Files, JSON, log and errors\<close>

text \<open>
  A path holds no file, a file that cannot be read (reading throws the error whose text is
  given), or a file with its text, the UTF-8 encoding of the string that \<^verbatim>\<open>readFileSync\<close>
  returns for it. A parsed JSON object is the list of its members, each key once; a JSON number
  is an integer here, since the executors only test a number for being zero.
\<close>

datatype fileEntry = Missing | Unreadable string | Contents string

type_synonym filesystem = "string \<Rightarrow> fileEntry"

datatype json = JNull | JBool bool | JNum int | JStr string | JArr "json list" | JObj "(string \<times> json) list"

datatype log = Warn string | Info string

datatype error =
    TypeError                 \<comment> \<open>a property read of \<^verbatim>\<open>undefined\<close>, or a call of something that is no function\<close>
  | OutputPathNotConfigured   \<comment> \<open>\<^verbatim>\<open>Error('Build target has no "outputPath" configured!')\<close>\<close>
  | ProjectNameRequired       \<comment> \<open>\<^verbatim>\<open>Error('Project name is required (name)')\<close>\<close>
  | NoBuildTarget             \<comment> \<open>\<^verbatim>\<open>Error('No build target configured!')\<close>\<close>
  | BuildFailed               \<comment> \<open>\<^verbatim>\<open>Error('Failed building container!')\<close>\<close>
  | SystemError string        \<comment> \<open>a file could not be read or written\<close>
  | JsonParseError            \<comment> \<open>the manifest is not JSON\<close>

definition existsSync :: "filesystem \<Rightarrow> string \<Rightarrow> bool" where
  "existsSync fs p = (fs p \<noteq> Missing)"

definition readFileSync :: "filesystem \<Rightarrow> string \<Rightarrow> error + string" where
  "readFileSync fs p =
     (case fs p of
        Missing \<Rightarrow> Inl (SystemError ''ENOENT'')
      | Unreadable e \<Rightarrow> Inl (SystemError e)
      | Contents s \<Rightarrow> Inr s)"

text \<open>
  What the executors import and the sources do not hold is a parameter of the model, so every
  theorem holds for whatever it computes: Node's \<^verbatim>\<open>path.join\<close> and the JSON parser behind
  \<^verbatim>\<open>readJsonFile\<close> (\<open>None\<close>: the text is not JSON, and \<^verbatim>\<open>readJsonFile\<close> throws); what the disk
  answers to a write (\<open>writeError\<close>: the text of the error that \<^verbatim>\<open>writeFileSync\<close> throws at a
  path, as it does when the directory of the path does not exist, and \<open>None\<close> where it
  writes); for the executor of lines 46 to 192, \<^verbatim>\<open>getOutputDirectoryFromBuildTarget\<close> of \<^verbatim>\<open>@nx-extend/core\<close> and
  \<^verbatim>\<open>getContainerFlags\<close> of \<^verbatim>\<open>./utils/get-container-flags\<close>. An entry of the list
  \<^verbatim>\<open>getContainerFlags\<close> returns is a string; the empty string stands for any entry that
  \<^verbatim>\<open>filter(Boolean)\<close> drops.
\<close>

record Platform =
  join :: "string list \<Rightarrow> string"
  parseJson :: "string \<Rightarrow> json option"
  writeError :: "string \<Rightarrow> string option"

record 'c Collaborators = Platform +
  getOutputDirectoryFromBuildTarget :: "ExecutorContext \<Rightarrow> string \<Rightarrow> string option"
  getContainerFlags :: "'c \<Rightarrow> bool \<Rightarrow> string list"

definition writeFileSync ::
  "'e Platform_scheme \<Rightarrow> filesystem \<Rightarrow> string \<Rightarrow> string \<Rightarrow> error + filesystem" where
  "writeFileSync env fs p d =
     (case writeError env p of
        Some m \<Rightarrow> Inl (SystemError m)
      | None \<Rightarrow> Inr (fs (p := Contents d)))"

definition readJsonFile :: "'e Platform_scheme \<Rightarrow> filesystem \<Rightarrow> string \<Rightarrow> error + json" where
  "readJsonFile env fs p =
     (case readFileSync fs p of
        Inl e \<Rightarrow> Inl e
      | Inr s \<Rightarrow> (case parseJson env s of None \<Rightarrow> Inl JsonParseError | Some j \<Rightarrow> Inr j))"

section \<open>The version of the manifest\<close>

text \<open>
  The regular expression of line 126,
  \<^verbatim>\<open>/^\s*version\s*=\s*["']([^"']+)["']\s*$/m\<close>, on the string that \<^verbatim>\<open>readFileSync\<close> decoded,
  a byte order mark included. The expression has no flag \<^verbatim>\<open>u\<close> and names no character outside
  the Basic Multilingual Plane, so it reads the same on the UTF-8 encoding, character by
  character. \<^verbatim>\<open>\s\<close> is a white space or a line terminator of ECMAScript, 25 characters:
  U+0009 to U+000D, U+0020, U+00A0, U+1680, U+2000 to U+200A, U+2028, U+2029, U+202F, U+205F,
  U+3000 and U+FEFF, each given by its bytes. A line ends at U+000A, U+000D, U+2028 or
  U+2029. A quote is \<^verbatim>\<open>"\<close> or \<^verbatim>\<open>'\<close>.
\<close>

definition isQuote :: "char \<Rightarrow> bool" where
  "isQuote c = (c = CHR 0x22 \<or> c = CHR 0x27)"

definition spaceChars :: "string list" where
  "spaceChars =
     [ [CHR 0x09], [CHR 0x0A], [CHR 0x0B], [CHR 0x0C], [CHR 0x0D], [CHR 0x20],
      [CHR 0xC2, CHR 0xA0]  \<comment> \<open>U+00A0\<close>,
      [CHR 0xE1, CHR 0x9A, CHR 0x80]  \<comment> \<open>U+1680\<close>,
      [CHR 0xE2, CHR 0x80, CHR 0x80], [CHR 0xE2, CHR 0x80, CHR 0x81],
      [CHR 0xE2, CHR 0x80, CHR 0x82], [CHR 0xE2, CHR 0x80, CHR 0x83],
      [CHR 0xE2, CHR 0x80, CHR 0x84], [CHR 0xE2, CHR 0x80, CHR 0x85],
      [CHR 0xE2, CHR 0x80, CHR 0x86], [CHR 0xE2, CHR 0x80, CHR 0x87],
      [CHR 0xE2, CHR 0x80, CHR 0x88], [CHR 0xE2, CHR 0x80, CHR 0x89],
      [CHR 0xE2, CHR 0x80, CHR 0x8A]  \<comment> \<open>U+2000 to U+200A\<close>,
      [CHR 0xE2, CHR 0x80, CHR 0xA8], [CHR 0xE2, CHR 0x80, CHR 0xA9]  \<comment> \<open>U+2028, U+2029\<close>,
      [CHR 0xE2, CHR 0x80, CHR 0xAF]  \<comment> \<open>U+202F\<close>,
      [CHR 0xE2, CHR 0x81, CHR 0x9F]  \<comment> \<open>U+205F\<close>,
      [CHR 0xE3, CHR 0x80, CHR 0x80]  \<comment> \<open>U+3000\<close>,
      [CHR 0xEF, CHR 0xBB, CHR 0xBF]  \<comment> \<open>U+FEFF\<close>]"

definition lineTerminators :: "string list" where
  "lineTerminators =
     [ [CHR 0x0A], [CHR 0x0D],
      [CHR 0xE2, CHR 0x80, CHR 0xA8], [CHR 0xE2, CHR 0x80, CHR 0xA9]  \<comment> \<open>U+2028, U+2029\<close>]"

text \<open>
  The white space with which a text begins, and \<^verbatim>\<open>\s*\<close> taken as far as it goes: the characters
  of the run and the text after it.
\<close>

definition spaceAtHead :: "string \<Rightarrow> string option" where
  "spaceAtHead s = List.find (\<lambda>x. prefix x s) spaceChars"

function spaceRun :: "string \<Rightarrow> string list \<times> string" where
  "spaceRun s =
     (case spaceAtHead s of
        None \<Rightarrow> ([], s)
      | Some x \<Rightarrow> (x # fst (spaceRun (drop (length x) s)), snd (spaceRun (drop (length x) s))))"
  by pat_completeness auto
termination
proof (relation "measure length")
  show "wf (measure length)" by simp
next
  fix s x
  assume "spaceAtHead s = Some x"
  then have "x \<in> set spaceChars" "prefix x s"
    by (auto simp: spaceAtHead_def find_Some_iff)
  then have "x \<noteq> []" "s \<noteq> []"
    by (auto simp: spaceChars_def)
  then show "(drop (length x) s, s) \<in> measure length"
    by simp
next
  fix s x
  assume "spaceAtHead s = Some x"
  then have "x \<in> set spaceChars" "prefix x s"
    by (auto simp: spaceAtHead_def find_Some_iff)
  then have "x \<noteq> []" "s \<noteq> []"
    by (auto simp: spaceChars_def)
  then show "(drop (length x) s, s) \<in> measure length"
    by simp
qed

declare spaceRun.simps [simp del]

definition skipSpaces :: "string \<Rightarrow> string" where
  "skipSpaces s = snd (spaceRun s)"

text \<open>
  The expression after its \<^verbatim>\<open>^\<close>, tried at one position: the text from there on is \<open>s\<close>, the
  result is the group \<^verbatim>\<open>([^"']+)\<close>. Each \<^verbatim>\<open>\s*\<close> but the last is followed by a character that
  is no space, so it takes the whole run of spaces; the group is followed by a quote, so it is
  the whole run up to the next quote. The last \<^verbatim>\<open>\s*\<close> may stop early: \<^verbatim>\<open>$\<close> holds at the end of
  the text and before every line terminator, and a line terminator is a space, so
  \<^verbatim>\<open>\s*$\<close> matches when the spaces after the closing quote reach the end of the text or hold a
  line terminator.
\<close>

definition matchVersionAt :: "string \<Rightarrow> string option" where
  "matchVersionAt s =
     (let s1 = skipSpaces s in
      if take 7 s1 \<noteq> ''version'' then None
      else
        (case skipSpaces (drop 7 s1) of
           [] \<Rightarrow> None
         | e # s2 \<Rightarrow>
             if e \<noteq> CHR ''='' then None
             else
               (case skipSpaces s2 of
                  [] \<Rightarrow> None
                | q # s3 \<Rightarrow>
                    if \<not> isQuote q then None
                    else
                      (let v = takeWhile (\<lambda>c. \<not> isQuote c) s3 in
                       if v = [] then None
                       else
                         (case dropWhile (\<lambda>c. \<not> isQuote c) s3 of
                            [] \<Rightarrow> None
                          | q' # s4 \<Rightarrow>
                              if skipSpaces s4 = []
                                 \<or> list_ex (\<lambda>x. x \<in> set lineTerminators) (fst (spaceRun s4))
                              then Some v
                              else None)))))"

text \<open>
  \<^verbatim>\<open>content.match(...)\<close> without the flag \<^verbatim>\<open>g\<close>: the match at the leftmost position where one
  starts. With the flag \<^verbatim>\<open>m\<close> the positions \<^verbatim>\<open>^\<close> allows are the start of the text and the ones
  after a line terminator; \<open>lineStart\<close> says whether the text before a position ends there.
\<close>

definition lineStart :: "string \<Rightarrow> bool" where
  "lineStart pre = (pre = [] \<or> list_ex (\<lambda>t. suffix t pre) lineTerminators)"

definition versionMatch :: "string \<Rightarrow> string option" where
  "versionMatch content =
     (case List.find
             (\<lambda>i. lineStart (take i content) \<and> matchVersionAt (drop i content) \<noteq> None)
             [0 ..< Suc (length content)] of
        None \<Rightarrow> None
      | Some i \<Rightarrow> matchVersionAt (drop i content))"

text \<open>\<^verbatim>\<open>packageJson?.version\<close>: the property of an object, \<^verbatim>\<open>undefined\<close> of anything else.\<close>

fun versionOf :: "json \<Rightarrow> json option" where
  "versionOf (JObj members) = map_of members ''version''"
| "versionOf j = None"

fun truthyJson :: "json \<Rightarrow> bool" where
  "truthyJson JNull = False"
| "truthyJson (JBool b) = b"
| "truthyJson (JNum n) = (n \<noteq> 0)"
| "truthyJson (JStr s) = (s \<noteq> [])"
| "truthyJson (JArr xs) = True"
| "truthyJson (JObj members) = True"

text \<open>
  Lines 102 to 141: the value of \<^verbatim>\<open>packageVersion\<close> and what was logged on the way, or the
  exception that leaves the executor. \<^verbatim>\<open>readJsonFile\<close> stands outside any \<^verbatim>\<open>try\<close>, and so does the
  call of \<^verbatim>\<open>replace\<close>, which only a string has.
\<close>

definition packageVersion ::
  "'e Platform_scheme \<Rightarrow> filesystem \<Rightarrow> string \<Rightarrow> string \<Rightarrow> bool \<Rightarrow> manifestKind
     \<Rightarrow> error + (string option \<times> log list)" where
  "packageVersion env fs wsRoot projRoot tagWithVersion' manifestType' =
     (if \<not> tagWithVersion' then Inr (None, [])
      else
        (case manifestType' of
           node \<Rightarrow>
             (let packageJsonPath = join env [wsRoot, projRoot, ''package.json''] in
              if existsSync fs packageJsonPath then
                (case readJsonFile env fs packageJsonPath of
                   Inl e \<Rightarrow> Inl e
                 | Inr packageJson \<Rightarrow>
                     (case versionOf packageJson of
                        None \<Rightarrow> Inr (None, [])
                      | Some ver \<Rightarrow>
                          if \<not> truthyJson ver then Inr (None, [])
                          else
                            (case ver of
                               JStr s \<Rightarrow>
                                 Inr (Some (''v'' @ replaceDots s),
                                      [Info (''Using package.json version: '' @ s)])
                             | _ \<Rightarrow> Inl TypeError)))
              else Inr (None, [Warn ''tagWithVersion is enabled but package.json not found'']))
         | python \<Rightarrow>
             (let pyprojectPath = join env [wsRoot, projRoot, ''pyproject.toml''] in
              if existsSync fs pyprojectPath then
                (case readFileSync fs pyprojectPath of
                   Inl e \<Rightarrow>
                     Inr (None,
                          [Warn (''Failed to parse pyproject.toml: ''
                                 @ (case e of SystemError m \<Rightarrow> m | _ \<Rightarrow> []))])
                 | Inr pyprojectContent \<Rightarrow>
                     (case versionMatch pyprojectContent of
                        Some v \<Rightarrow>
                          Inr (Some (''v'' @ replaceDots v),
                               [Info (''Using pyproject.toml version: '' @ v)])
                      | None \<Rightarrow>
                          Inr (None, [Warn ''pyproject.toml found but no version field detected''])))
              else Inr (None, [Warn ''tagWithVersion is enabled but pyproject.toml not found'']))))"

section \<open>The argument object and its flags\<close>

text \<open>
  The package \<^verbatim>\<open>yargs-unparser\<close> (line 5) is a dependency, not a file of this repository. The
  model follows its published behaviour, the one of its README
  (\<^verbatim>\<open>{ boolean: false, number: 4, string: 'foo', _: [] }\<close> gives
  \<^verbatim>\<open>['--no-boolean', '--number', '4', '--string', 'foo']\<close>): the positional arguments under
  \<^verbatim>\<open>_\<close> come first; then every other key in insertion order; a string or a number gives the
  flag and the value as two entries; \<^verbatim>\<open>true\<close> gives the flag; \<^verbatim>\<open>false\<close> gives the flag with
  \<^verbatim>\<open>--no-\<close> before the key; \<^verbatim>\<open>undefined\<close> and \<^verbatim>\<open>null\<close> give nothing. The executor passes no
  aliases, defaults or command, and none of its keys has a capital letter, so the package's
  other filters let every key through. Arrays and nested objects do not occur as values.
\<close>

record argv =
  positional :: "string list"
  flags :: "(string \<times> jsval) list"

definition keyToFlag :: "string \<Rightarrow> string" where
  "keyToFlag key = (if length key = 1 then ''-'' @ key else ''--'' @ key)"

fun unparseOption :: "string \<Rightarrow> jsval \<Rightarrow> string list" where
  "unparseOption key (Str v) = [keyToFlag key, v]"
| "unparseOption key (Bool True) = [keyToFlag key]"
| "unparseOption key (Bool False) = [''--no-'' @ key]"
| "unparseOption key (Num n) = [keyToFlag key, numberToString n]"
| "unparseOption key Undefined = []"
| "unparseOption key Null = []"

definition yargsUnparser :: "argv \<Rightarrow> string list" where
  "yargsUnparser a =
     positional a
     @ concat (map (\<lambda>(key, v).
                      if key = ''_'' \<or> key = ''--'' \<or> key = ''$0'' then [] else unparseOption key v)
                 (flags a))"

text \<open>Lines 143 to 147: the verb.\<close>

definition gcloudDeploy :: "'c ExecutorSchema \<Rightarrow> string \<times> log list" where
  "gcloudDeploy options =
     (if truthy (ofString (volumeName options))
      then (''gcloud beta run deploy'',
            [Warn (''Volumes are still in beta, using '' @ [CHR 0x22] @ ''gcloud beta''
                   @ [CHR 0x22] @ '' to deploy.'' @ [CHR 0x0A])])
      else (''gcloud run deploy'', []))"

text \<open>Lines 59 to 83: the defaults of the destructuring that the claims depend on.\<close>

definition nameOf :: "'c ExecutorSchema \<Rightarrow> ExecutorContext \<Rightarrow> string option" where
  "nameOf options context = (case name options of None \<Rightarrow> projectName context | Some n \<Rightarrow> Some n)"

definition allowUnauthenticatedOf :: "'c ExecutorSchema \<Rightarrow> bool" where
  "allowUnauthenticatedOf options =
     (case allowUnauthenticated options of None \<Rightarrow> True | Some b \<Rightarrow> b)"

definition tagWithVersionOf :: "'c ExecutorSchema \<Rightarrow> bool" where
  "tagWithVersionOf options = (case tagWithVersion options of None \<Rightarrow> False | Some t \<Rightarrow> t)"

definition manifestTypeOf :: "'c ExecutorSchema \<Rightarrow> manifestKind" where
  "manifestTypeOf options = (case manifestType options of None \<Rightarrow> node | Some m \<Rightarrow> m)"

definition sidecarsOf :: "'c ExecutorSchema \<Rightarrow> 'c list" where
  "sidecarsOf options = (case sidecars options of None \<Rightarrow> [] | Some cs \<Rightarrow> cs)"

text \<open>
  Lines 150 to 172: the argument object. \<open>name'\<close> is the deployment name after its default,
  \<open>packageVersion'\<close> the value of \<^verbatim>\<open>packageVersion\<close>.
\<close>

definition args :: "'c ExecutorSchema \<Rightarrow> string \<Rightarrow> string option \<Rightarrow> argv" where
  "args options name' packageVersion' =
     \<lparr> positional = [name'],
       flags =
         [(''project'', Str (project options)),
          (''platform'', Str ''managed''),
          (''quiet'', Bool True),
          (''region'', Str (region options)),
          (''min-instances'', ofNumber (minInstances options)),
          (''max-instances'', ofNumber (maxInstances options)),
          (''concurrency'', ofNumber (concurrency options)),
          (''execution-environment'',
             ofString (map_option executionEnvironmentName (executionEnvironment options))),
          (''vpc-connector'', ofString (vpcConnector options)),
          (''vpc-egress'', ofString (map_option vpcEgressName (vpcEgress options))),
          (''ingress'', ofString (ingress options)),
          (''revision-suffix'', nullish (ofString (revisionSuffix options)) Undefined),
          (''service-account'', ofString (serviceAccount options)),
          (''timeout'', ofNumber (timeout options)),
          (''add-cloudsql-instances'', ofString (cloudSqlInstance options)),
          (''tag'',
             nullish
               (jsAnd (Bool (tagWithVersionOf options)) (ofNullable packageVersion'))
               Undefined),
          (''cpu-boost'', ofBoolean (cpuBoost options)),
          (''no-traffic'', nullish (ofBoolean (noTraffic options)) Undefined),
          (''allow-unauthenticated'',
             nullish (Bool (allowUnauthenticatedOf options)) Undefined),
          (''add-volume'',
             (if truthy (ofString (volumeName options))
              then Str (''name='' @ stringOf (volumeName options))
              else Undefined))] \<rparr>"

text \<open>Lines 175 to 189.\<close>

definition baseFlags :: "'c ExecutorSchema \<Rightarrow> string \<Rightarrow> string option \<Rightarrow> string list" where
  "baseFlags options name' packageVersion' = yargsUnparser (args options name' packageVersion')"

definition containerFlagsOf :: "'c Collaborators \<Rightarrow> 'c ExecutorSchema \<Rightarrow> string list" where
  "containerFlagsOf env options =
     getContainerFlags env (containerFlags options) (length (sidecarsOf options) > 0)"

definition sidecarFlags :: "'c Collaborators \<Rightarrow> 'c ExecutorSchema \<Rightarrow> string list" where
  "sidecarFlags env options =
     concat (map (\<lambda>sidecarOptions. getContainerFlags env sidecarOptions True) (sidecarsOf options))"

definition commandParts ::
  "'c Collaborators \<Rightarrow> 'c ExecutorSchema \<Rightarrow> string \<Rightarrow> string option \<Rightarrow> string list" where
  "commandParts env options name' packageVersion' =
     filter (\<lambda>part. truthy (Str part))
       ([fst (gcloudDeploy options)]
        @ baseFlags options name' packageVersion'
        @ containerFlagsOf env options
        @ sidecarFlags env options)"

definition fullCommand ::
  "'c Collaborators \<Rightarrow> 'c ExecutorSchema \<Rightarrow> string \<Rightarrow> string option \<Rightarrow> string" where
  "fullCommand env options name' packageVersion' =
     joinWith '' '' (commandParts env options name' packageVersion')"

section \<open>The executor\<close>

text \<open>
  Lines 91 to 100: the Dockerfile is copied into the build output. Neither the read nor the
  write stands in a \<^verbatim>\<open>try\<close>.
\<close>

definition stageDockerfile ::
  "'e Platform_scheme \<Rightarrow> filesystem \<Rightarrow> string \<Rightarrow> string \<Rightarrow> string \<Rightarrow> error + filesystem" where
  "stageDockerfile env fs wsRoot distDirectory dockerFile' =
     (if truthy (Str dockerFile') then
        (case readFileSync fs (join env [wsRoot, dockerFile']) of
           Inl e \<Rightarrow> Inl e
         | Inr d \<Rightarrow> writeFileSync env fs (join env [distDirectory, ''Dockerfile'']) d)
      else Inr fs)"

text \<open>Lines 52 and 53: the build target and its output directory.\<close>

definition buildTargetOf :: "'c ExecutorSchema \<Rightarrow> ExecutorContext \<Rightarrow> string" where
  "buildTargetOf options context =
     (if truthy (ofString (buildTarget options)) then stringOf (buildTarget options)
      else stringOf (projectName context) @ '':build'')"

definition outputDirectoryOf ::
  "'c Collaborators \<Rightarrow> 'c ExecutorSchema \<Rightarrow> ExecutorContext \<Rightarrow> string option" where
  "outputDirectoryOf env options context =
     getOutputDirectoryFromBuildTarget env context (buildTargetOf options context)"

text \<open>
  What a run that reaches line 191 has done: the command and the dry-run flag handed to
  \<^verbatim>\<open>execCommand\<close>, the log, and the files. A run that throws is the error, and hands no
  command to \<^verbatim>\<open>execCommand\<close>.
\<close>

record outcome =
  executed :: string
  executedDryRun :: "bool option"
  logged :: "log list"
  filesAfter :: filesystem

definition deployExecutor ::
  "'c Collaborators \<Rightarrow> filesystem \<Rightarrow> 'c ExecutorSchema \<Rightarrow> ExecutorContext \<Rightarrow> error + outcome" where
  "deployExecutor env fs options context =
     (case projects context (stringOf (projectName context)) of
        None \<Rightarrow> Inl TypeError
      | Some projectConfiguration \<Rightarrow>
          (let outputDirectory = outputDirectoryOf env options context in
             if \<not> truthy (ofString outputDirectory) then Inl OutputPathNotConfigured
             else if \<not> truthy (ofString (nameOf options context)) then Inl ProjectNameRequired
             else
               (let distDirectory = join env [workspaceRoot context, stringOf outputDirectory] in
                case stageDockerfile env fs (workspaceRoot context) distDirectory
                       (dockerFile options) of
                  Inl e \<Rightarrow> Inl e
                | Inr fs' \<Rightarrow>
                    (case packageVersion env fs' (workspaceRoot context)
                            (root projectConfiguration) (tagWithVersionOf options)
                            (manifestTypeOf options) of
                       Inl e \<Rightarrow> Inl e
                     | Inr (packageVersion', versionLog) \<Rightarrow>
                         Inr \<lparr> executed =
                                 fullCommand env options (stringOf (nameOf options context))
                                   packageVersion',
                               executedDryRun = dryRun options,
                               logged = versionLog @ snd (gcloudDeploy options),
                               filesAfter = fs' \<rparr>))))"

section \<open>The executor with secrets\<close>

text \<open>
  Lines 195 to 349 hold a second executor of the same name, the one with memory limits,
  HTTP/2, secrets and two ways to build. Its \<^verbatim>\<open>ExecutorSchema\<close> comes from \<^verbatim>\<open>../schema\<close>, which is
  not among the sources: the record has the fields the destructuring of lines 212 to 235 reads,
  typed by their defaults and uses. A name the first executor's record already has carries
  a \<open>2\<close>.
\<close>

record ExecutorSchema2 =
  region2 :: string
  project2 :: string
  name2 :: "string option"
  allowUnauthenticated2 :: "bool option"
  envVars :: "(string \<times> string) list option"
  concurrency2 :: "int option"
  maxInstances2 :: "int option"
  minInstances2 :: "int option"
  memory :: "string option"
  cloudSqlInstance2 :: "string option"
  http2 :: "bool option"
  serviceAccount2 :: "string option"
  logsDir2 :: "string option"
  tagWithVersion2 :: "bool option"
  noTraffic2 :: "bool option"
  secrets :: "string list option"
  revisionSuffix2 :: "string option"
  buildWith2 :: "string option"
  autoCreateArtifactsRepo :: "bool option"
  generateRepoInfoFile :: "bool option"
  timeout2 :: "int option"
  dockerFile2 :: "string option"

text \<open>
  \<^verbatim>\<open>buildCommand\<close> and \<^verbatim>\<open>execCommand\<close> of \<^verbatim>\<open>@nx-extend/core\<close> are not among the sources either:
  \<open>buildCommand\<close> takes the array the executor builds and gives the command line,
  \<open>execCommand\<close> takes the command line and the working directory and says whether the command
  succeeded.
\<close>

record Core = Platform +
  buildCommand :: "jsval list \<Rightarrow> string"
  execCommand :: "string \<Rightarrow> string option \<Rightarrow> bool"

text \<open>The defaults of lines 212 to 235, as the values the rest of the function sees.\<close>

definition orElse :: "'a option \<Rightarrow> 'a \<Rightarrow> 'a" where
  "orElse v d = (case v of None \<Rightarrow> d | Some x \<Rightarrow> x)"

definition nameOf2 :: "ExecutorSchema2 \<Rightarrow> ExecutorContext \<Rightarrow> string option" where
  "nameOf2 options context = (case name2 options of None \<Rightarrow> projectName context | Some n \<Rightarrow> Some n)"

definition secretsOf :: "ExecutorSchema2 \<Rightarrow> string list" where
  "secretsOf options = orElse (secrets options) []"

text \<open>\<^verbatim>\<open>secret.includes('=')\<close> of a one-character pattern.\<close>

definition includesChar :: "string \<Rightarrow> char \<Rightarrow> bool" where
  "includesChar s c = (c \<in> set s)"

text \<open>
  Lines 293 to 300: \<^verbatim>\<open>secrets.map(...).filter(Boolean)\<close>. The callback gives the secret, or logs
  and gives \<^verbatim>\<open>false\<close>; \<open>checkSecret\<close> is the callback, its log beside its value.
\<close>

definition invalidSecretWarning :: "string \<Rightarrow> log" where
  "invalidSecretWarning secret =
     Warn ([CHR 0x22] @ secret @ [CHR 0x22]
           @ '' is not a valid secret! It should be in the following format ''
           @ [CHR 0x22] @ ''ENV_VAR_NAME=SECRET:VERSION'' @ [CHR 0x22])"

definition checkSecret :: "string \<Rightarrow> jsval \<times> log list" where
  "checkSecret secret =
     (if includesChar secret CHR ''='' \<and> includesChar secret CHR '':'' then (Str secret, [])
      else (Bool False, [invalidSecretWarning secret]))"

definition validSecrets :: "string list \<Rightarrow> jsval list" where
  "validSecrets secrets' = filter truthy (map (fst \<circ> checkSecret) secrets')"

definition secretWarnings :: "string list \<Rightarrow> log list" where
  "secretWarnings secrets' = concat (map (snd \<circ> checkSecret) secrets')"

text \<open>\<^verbatim>\<open>`${v}`\<close> and \<^verbatim>\<open>values.join(',')\<close> of the values that occur.\<close>

fun toText :: "jsval \<Rightarrow> string" where
  "toText Undefined = ''undefined''"
| "toText Null = ''null''"
| "toText (Bool b) = (if b then ''true'' else ''false'')"
| "toText (Num n) = numberToString n"
| "toText (Str s) = s"

text \<open>Lines 312 to 316.\<close>

definition gcloudCommand :: "jsval list \<Rightarrow> string \<times> log list" where
  "gcloudCommand validSecrets' =
     (if length validSecrets' > 0 then (''gcloud beta'', [Info ''Using secrets, use gcloud beta''])
      else (''gcloud'', []))"

text \<open>Lines 273 to 285.\<close>

definition packageVersion2 ::
  "'e Platform_scheme \<Rightarrow> filesystem \<Rightarrow> string \<Rightarrow> string \<Rightarrow> bool \<Rightarrow> error + string option" where
  "packageVersion2 env fs wsRoot projRoot tagWithVersion' =
     (if \<not> tagWithVersion' then Inr None
      else
        (let packageJsonLocation = join env [wsRoot, projRoot, ''package.json''] in
         if existsSync fs packageJsonLocation then
           (case readJsonFile env fs packageJsonLocation of
              Inl e \<Rightarrow> Inl e
            | Inr packageJson \<Rightarrow>
                if \<not> truthyJson packageJson then Inr None
                else
                  (case versionOf packageJson of
                     None \<Rightarrow> Inr None
                   | Some ver \<Rightarrow>
                       if \<not> truthyJson ver then Inr None
                       else
                         (case ver of
                            JStr s \<Rightarrow> Inr (Some (''v'' @ replaceDots s))
                          | _ \<Rightarrow> Inl TypeError)))
         else Inr None))"

text \<open>Lines 287 to 291.\<close>

definition setEnvVars :: "(string \<times> string) list \<Rightarrow> string list" where
  "setEnvVars envVars' = map (\<lambda>(envVar, v). envVar @ ''='' @ v) envVars'"

text \<open>
  Lines 318 to 342: the array handed to \<^verbatim>\<open>buildCommand\<close>. \<open>name'\<close> is the name after its default,
  \<open>packageVersion'\<close> the value of \<^verbatim>\<open>packageVersion\<close>, \<open>validSecrets'\<close> the value of
  \<^verbatim>\<open>validSecrets\<close>.
\<close>

definition deployParts ::
  "ExecutorSchema2 \<Rightarrow> string option \<Rightarrow> string option \<Rightarrow> jsval list \<Rightarrow> jsval list" where
  "deployParts options name' packageVersion' validSecrets' =
     (let buildWithArtifactRegistry = (orElse (buildWith2 options) ''artifact-registry'' = ''artifact-registry'');
          containerName = ''gcr.io/'' @ project2 options @ ''/'' @ stringOf name';
          revisionSuffix' = (case revisionSuffix2 options of None \<Rightarrow> Bool False | Some r \<Rightarrow> Str r);
          serviceAccount' = ofNullable (serviceAccount2 options);
          timeout' = (case timeout2 options of None \<Rightarrow> Null | Some t \<Rightarrow> Num t);
          cloudSqlInstance' = ofNullable (cloudSqlInstance2 options);
          setEnvVars' = setEnvVars (orElse (envVars options) [])
      in
        [Str (fst (gcloudCommand validSecrets') @ '' run deploy '' @ stringOf name'),
         jsAnd (Bool (\<not> buildWithArtifactRegistry)) (Str (''--image='' @ containerName)),
         jsAnd (Bool buildWithArtifactRegistry) (Str ''--source=./''),
         Str (''--project='' @ project2 options),
         Str ''--platform=managed'',
         Str (''--memory='' @ orElse (memory options) ''128Mi''),
         Str (''--region='' @ region2 options),
         Str (''--min-instances='' @ numberToString (orElse (minInstances2 options) 0)),
         Str (''--max-instances='' @ numberToString (orElse (maxInstances2 options) 10)),
         Str (''--concurrency='' @ numberToString (orElse (concurrency2 options) 250)),
         jsAnd revisionSuffix' (Str (''--revision-suffix='' @ toText revisionSuffix')),
         jsAnd serviceAccount' (Str (''--service-account='' @ toText serviceAccount')),
         jsAnd (Bool (orElse (http2 options) False)) (Str ''--use-http2''),
         jsAnd (Bool (orElse (noTraffic2 options) False)) (Str ''--no-traffic''),
         jsAnd timeout' (Str (''--timeout='' @ toText timeout')),
         jsAnd (Bool (length setEnvVars' > 0))
           (Str (''--set-env-vars='' @ joinWith '','' setEnvVars')),
         jsAnd cloudSqlInstance' (Str (''--add-cloudsql-instances='' @ toText cloudSqlInstance')),
         jsAnd (Bool (orElse (allowUnauthenticated2 options) True)) (Str ''--allow-unauthenticated''),
         jsAnd (jsAnd (Bool (orElse (tagWithVersion2 options) False)) (ofNullable packageVersion'))
           (Str (''--tag='' @ toText (ofNullable packageVersion'))),
         jsAnd (Bool (length validSecrets' > 0))
           (Str (''--set-secrets='' @ joinWith '','' (map toText validSecrets'))),
         jsAnd (jsAnd (Bool buildWithArtifactRegistry)
                  (Bool (orElse (autoCreateArtifactsRepo options) True)))
           (Str ''--quiet'')])"

text \<open>Lines 256 to 271: the container is built first unless the registry builds it.\<close>

definition buildSubmitParts :: "ExecutorSchema2 \<Rightarrow> string option \<Rightarrow> jsval list" where
  "buildSubmitParts options name' =
     [Str ''gcloud builds submit'',
      Str (''--tag='' @ ''gcr.io/'' @ project2 options @ ''/'' @ stringOf name'),
      Str (''--project='' @ project2 options),
      (if truthy (ofString (logsDir2 options))
       then Str (''--gcs-log-dir='' @ stringOf (logsDir2 options))
       else Bool False)]"

text \<open>Lines 302 to 310.\<close>

definition repoInfoParts :: "string option \<Rightarrow> string \<Rightarrow> jsval list" where
  "repoInfoParts sourceRoot' distDirectory =
     [Str ''gcloud debug source gen-repo-info-file'',
      Str (''--source-directory='' @ stringOf sourceRoot'),
      Str (''--output-directory='' @ distDirectory)]"

text \<open>
  What a run that reaches line 344 has done: the commands handed to \<^verbatim>\<open>execCommand\<close>, each with
  its working directory, in order (the last one is the deployment), the log, and the files.
\<close>

record outcome2 =
  commands :: "(string \<times> string option) list"
  logged2 :: "log list"
  filesAfter2 :: filesystem

definition deployExecutor2 ::
  "Core \<Rightarrow> filesystem \<Rightarrow> ExecutorSchema2 \<Rightarrow> ExecutorContext \<Rightarrow> error + outcome2" where
  "deployExecutor2 env fs options context =
     (case projects context (stringOf (projectName context)) of
        None \<Rightarrow> Inl TypeError
      | Some projectConfiguration \<Rightarrow>
          if \<not> truthy (ofString (buildOutputPath projectConfiguration)) then Inl NoBuildTarget
          else
            (let name' = nameOf2 options context;
                 distDirectory =
                   join env [workspaceRoot context, stringOf (buildOutputPath projectConfiguration)];
                 buildWithArtifactRegistry =
                   (orElse (buildWith2 options) ''artifact-registry'' = ''artifact-registry'')
             in
               case stageDockerfile env fs (workspaceRoot context) distDirectory
                      (orElse (dockerFile2 options) []) of
                 Inl e \<Rightarrow> Inl e
               | Inr fs' \<Rightarrow>
                   (let buildSubmitCommand = buildCommand env (buildSubmitParts options name');
                        built =
                          (if buildWithArtifactRegistry then []
                           else [(buildSubmitCommand, Some distDirectory)])
                    in
                      if \<not> buildWithArtifactRegistry
                         \<and> \<not> execCommand env buildSubmitCommand (Some distDirectory)
                      then Inl BuildFailed
                      else
                        (case packageVersion2 env fs' (workspaceRoot context)
                                (root projectConfiguration)
                                (orElse (tagWithVersion2 options) False) of
                           Inl e \<Rightarrow> Inl e
                         | Inr packageVersion' \<Rightarrow>
                             (let validSecrets' = validSecrets (secretsOf options);
                                  generate = orElse (generateRepoInfoFile options) False;
                                  deployCommand =
                                    buildCommand env
                                      (deployParts options name' packageVersion' validSecrets')
                              in
                                Inr \<lparr> commands =
                                        built
                                        @ (if generate
                                           then [(buildCommand env
                                                    (repoInfoParts (sourceRoot projectConfiguration)
                                                       distDirectory),
                                                  None)]
                                           else [])
                                        @ [(deployCommand, Some distDirectory)],
                                      logged2 =
                                        secretWarnings (secretsOf options)
                                        @ (if generate then [Info ''Generating repo info file'']
                                           else [])
                                        @ snd (gcloudCommand validSecrets'),
                                      filesAfter2 = fs' \<rparr>)))))"

section \<open>The container flags, from the specification\<close>

text \<open>
  Modelled from the spec: \<^verbatim>\<open>getContainerFlags\<close> and the interface \<^verbatim>\<open>ContainerFlags\<close> of
  \<^verbatim>\<open>./utils/get-container-flags\<close> are missing from the sources. Section 4.3 of the specification:
  given one container and a boolean that says whether the container is a named sidecar or the
  primary container of a deployment with several containers, the function gives the flags of
  that one container; with the boolean set, the flags carry the container's identifier, and
  without it they carry none; a missing optional field is left out. The specification names
  neither the fields nor the flags. The container here has an identifier and an optional image
  reference, the identifier is written \<^verbatim>\<open>--container=<identifier>\<close>, and an image
  \<^verbatim>\<open>--image=<image>\<close>, the way the specification writes flags.
\<close>

record ContainerSpec =
  containerName :: string
  image :: "string option"


definition specContainerFlags :: "ContainerSpec \<Rightarrow> bool \<Rightarrow> string list" where
  "specContainerFlags c qualified =
     (if qualified then [''--container='' @ containerName c] else [])
     @ (case image c of None \<Rightarrow> [] | Some i \<Rightarrow> [''--image='' @ i])"

section \<open>Notions the statements use\<close>

text \<open>The argument object with one key taken out.\<close>

definition withoutKey :: "string \<Rightarrow> argv \<Rightarrow> argv" where
  "withoutKey key a = a \<lparr> flags := filter (\<lambda>(key', v). key' \<noteq> key) (flags a) \<rparr>"

text \<open>
  The flags of one container as they stand in the command: what \<^verbatim>\<open>filter(Boolean)\<close> leaves of
  them.
\<close>

definition primaryGroup :: "'c Collaborators \<Rightarrow> 'c ExecutorSchema \<Rightarrow> string list" where
  "primaryGroup env options = filter (\<lambda>part. part \<noteq> []) (containerFlagsOf env options)"

definition sidecarGroup :: "'c Collaborators \<Rightarrow> 'c \<Rightarrow> string list" where
  "sidecarGroup env sidecarOptions =
     filter (\<lambda>part. part \<noteq> []) (getContainerFlags env sidecarOptions True)"

text \<open>
  The form \<^verbatim>\<open>NAME=SECRET:VERSION\<close> in its widest reading: an equals sign, and a colon somewhere
  after it.
\<close>

definition hasSecretForm :: "string \<Rightarrow> bool" where
  "hasSecretForm secret = (CHR '':'' \<in> set (dropWhile (\<lambda>c. c \<noteq> CHR ''='') secret))"

text \<open>
  A version line of a TOML manifest, as Claim C6 reads it: white space, the word \<^verbatim>\<open>version\<close>,
  white space, \<^verbatim>\<open>=\<close>, white space, a quote, a value that is not empty and holds no quote, a
  quote, white space. White space is any number of the characters of \<open>spaceChars\<close>; a line
  terminator is one of them, and the value may hold one, so a version line can run over
  several lines of the text. The line stands in the text at the position \<open>i\<close> when \<open>i\<close> bytes
  come before it, it begins at the start of the text or after a line terminator, and it ends
  at the end of the text or before a line terminator.
\<close>

definition spaces :: "string \<Rightarrow> bool" where
  "spaces ws = (\<exists>xs. set xs \<subseteq> set spaceChars \<and> ws = concat xs)"

definition atLineStart :: "string \<Rightarrow> bool" where
  "atLineStart pre = (pre = [] \<or> (\<exists>p t. t \<in> set lineTerminators \<and> pre = p @ t))"

definition atLineEnd :: "string \<Rightarrow> bool" where
  "atLineEnd post = (post = [] \<or> (\<exists>t p. t \<in> set lineTerminators \<and> post = t @ p))"

definition versionLine :: "string \<Rightarrow> string \<Rightarrow> bool" where
  "versionLine v l =
     (\<exists>ws1 ws2 ws3 ws4 q1 q2.
        l = ws1 @ ''version'' @ ws2 @ ''='' @ ws3 @ [q1] @ v @ [q2] @ ws4
        \<and> spaces ws1 \<and> spaces ws2 \<and> spaces ws3 \<and> spaces ws4
        \<and> isQuote q1 \<and> isQuote q2 \<and> v \<noteq> [] \<and> \<not> list_ex isQuote v)"

definition versionLineIn :: "string \<Rightarrow> nat \<Rightarrow> string \<Rightarrow> bool" where
  "versionLineIn content i v =
     (\<exists>pre l post.
        content = pre @ l @ post \<and> length pre = i
        \<and> atLineStart pre \<and> versionLine v l \<and> atLineEnd post)"

section \<open>Sample inputs\<close>

text \<open>
  The inputs at which the theorems below are evaluated: a workspace \<^verbatim>\<open>/ws\<close> with the project
  \<^verbatim>\<open>svc\<close> under \<^verbatim>\<open>apps/svc\<close>, whose build target writes to \<^verbatim>\<open>dist/apps/svc\<close>; \<^verbatim>\<open>path.join\<close> puts
  a slash between its arguments; the JSON parser knows the two manifests used here; every
  write succeeds; the container flags are the ones modelled from the specification.
\<close>

definition sampleContainer :: ContainerSpec where
  "sampleContainer = \<lparr> containerName = ''svc'', image = None \<rparr>"


definition manifestText :: string where
  "manifestText =
     ''{'' @ [CHR 0x22] @ ''version'' @ [CHR 0x22] @ '': '' @ [CHR 0x22] @ ''1.2.3'' @ [CHR 0x22]
     @ ''}''"

definition sampleJson :: "string \<Rightarrow> json option" where
  "sampleJson text' =
     (if text' = manifestText then Some (JObj [(''version'', JStr ''1.2.3'')])
      else if text' = ''{}'' then Some (JObj [])
      else None)"

definition sampleEnv :: "ContainerSpec Collaborators" where
  "sampleEnv =
     \<lparr> join = joinWith ''/'',
       parseJson = sampleJson,
       writeError = (\<lambda>p. None),
       getOutputDirectoryFromBuildTarget = (\<lambda>context target. Some ''dist/apps/svc''),
       getContainerFlags = specContainerFlags \<rparr>"

definition sampleProject :: ProjectConfiguration where
  "sampleProject =
     \<lparr> root = ''apps/svc'', sourceRoot = Some ''apps/svc/src'',
       buildOutputPath = Some ''dist/apps/svc'' \<rparr>"

definition sampleContext :: ExecutorContext where
  "sampleContext =
     \<lparr> workspaceRoot = ''/ws'',
       projectName = Some ''svc'',
       projects = (\<lambda>p. if p = ''svc'' then Some sampleProject else None) \<rparr>"

text \<open>The configuration of the end-to-end example of the specification, around a container.\<close>

definition svcOptions :: "'c \<Rightarrow> 'c ExecutorSchema" where
  "svcOptions c =
     \<lparr> containerFlags = c, name = Some ''svc'', buildTarget = None, dockerFile = [],
       project = ''p1'', tag = None, region = ''us-central1'',
       allowUnauthenticated = Some True, concurrency = None, maxInstances = None,
       minInstances = None, cloudSqlInstance = None, logsDir = None, serviceAccount = None,
       tagWithVersion = None, manifestType = None, revisionSuffix = None, buildWith = None,
       noTraffic = None, timeout = None, cpuBoost = None, ingress = None,
       executionEnvironment = None, vpcConnector = None, vpcEgress = None, volumeName = None,
       sidecars = None, dryRun = None \<rparr>"

definition emptyFiles :: filesystem where
  "emptyFiles = (\<lambda>p. Missing)"

text \<open>
  For the executor with secrets: a \<^verbatim>\<open>buildCommand\<close> that keeps the entries that are not falsy
  and puts a space between them, and an \<^verbatim>\<open>execCommand\<close> that always succeeds.
\<close>

definition sampleCore :: Core where
  "sampleCore =
     \<lparr> join = joinWith ''/'',
       parseJson = sampleJson,
       writeError = (\<lambda>p. None),
       buildCommand = (\<lambda>parts. joinWith '' '' (map toText (filter truthy parts))),
       execCommand = (\<lambda>command cwd. True) \<rparr>"

definition secretOptions :: "string list \<Rightarrow> ExecutorSchema2" where
  "secretOptions secrets' =
     \<lparr> region2 = ''us-central1'', project2 = ''p1'', name2 = Some ''svc'',
       allowUnauthenticated2 = None, envVars = None, concurrency2 = None, maxInstances2 = None,
       minInstances2 = None, memory = None, cloudSqlInstance2 = None, http2 = None,
       serviceAccount2 = None, logsDir2 = None, tagWithVersion2 = None, noTraffic2 = None,
       secrets = Some secrets', revisionSuffix2 = None, buildWith2 = None,
       autoCreateArtifactsRepo = None, generateRepoInfoFile = None, timeout2 = None,
       dockerFile2 = None \<rparr>"

definition nodeFiles :: filesystem where
  "nodeFiles = (\<lambda>p. if p = ''/ws/apps/svc/package.json'' then Contents manifestText else Missing)"

definition brokenManifestFiles :: filesystem where
  "brokenManifestFiles =
     (\<lambda>p. if p = ''/ws/apps/svc/package.json'' then Contents ''{'' else Missing)"

definition unversionedManifestFiles :: filesystem where
  "unversionedManifestFiles =
     (\<lambda>p. if p = ''/ws/apps/svc/package.json'' then Contents ''{}'' else Missing)"

definition pyprojectText :: string where
  "pyprojectText =
     ''[project]'' @ [CHR 0x0A] @ ''version = '' @ [CHR 0x22] @ ''0.4.0'' @ [CHR 0x22] @ [CHR 0x0A]
     @ ''name = '' @ [CHR 0x22] @ ''svc'' @ [CHR 0x22]"

definition pythonFiles :: filesystem where
  "pythonFiles =
     (\<lambda>p. if p = ''/ws/apps/svc/pyproject.toml'' then Contents pyprojectText else Missing)"

definition unversionedPythonFiles :: filesystem where
  "unversionedPythonFiles =
     (\<lambda>p. if p = ''/ws/apps/svc/pyproject.toml'' then Contents (''[project]'' @ [CHR 0x0A])
          else Missing)"

text \<open>
  A manifest with two version lines; one whose version line goes on with a comment; one that
  begins with a byte order mark, quotes the version with \<^verbatim>\<open>'\<close>, has no-break spaces around the
  equals sign and ends its lines with U+2028.
\<close>

definition laterVersionText :: string where
  "laterVersionText =
     ''version = '' @ [CHR 0x22] @ ''9.9.9'' @ [CHR 0x22] @ [CHR 0x0A]
     @ ''version = '' @ [CHR 0x22] @ ''0.4.0'' @ [CHR 0x22]"

definition laterVersionFiles :: filesystem where
  "laterVersionFiles =
     (\<lambda>p. if p = ''/ws/apps/svc/pyproject.toml'' then Contents laterVersionText else Missing)"

definition commentedVersionText :: string where
  "commentedVersionText =
     ''version = '' @ [CHR 0x22] @ ''1.0.0'' @ [CHR 0x22] @ '' # release''"

definition commentedVersionFiles :: filesystem where
  "commentedVersionFiles =
     (\<lambda>p. if p = ''/ws/apps/svc/pyproject.toml'' then Contents commentedVersionText else Missing)"

definition markedText :: string where
  "markedText =
     [CHR 0xEF, CHR 0xBB, CHR 0xBF] @ ''version'' @ [CHR 0xC2, CHR 0xA0] @ ''=''
     @ [CHR 0xC2, CHR 0xA0] @ [CHR 0x27] @ ''0.4.0'' @ [CHR 0x27] @ [CHR 0xE2, CHR 0x80, CHR 0xA8]
     @ ''name = '' @ [CHR 0x27] @ ''svc'' @ [CHR 0x27]"

definition markedFiles :: filesystem where
  "markedFiles =
     (\<lambda>p. if p = ''/ws/apps/svc/pyproject.toml'' then Contents markedText else Missing)"

section \<open>Facts about the model\<close>

lemma packageVersion_untagged: "packageVersion env fs w r False m = Inr (None, [])"
  by (simp add: packageVersion_def)

lemma baseFlags_svc:
  "baseFlags (svcOptions c) ''svc'' pv =
     [''svc'', ''--project'', ''p1'', ''--platform'', ''managed'', ''--quiet'', ''--region'',
      ''us-central1'', ''--no-tag'', ''--allow-unauthenticated'']"
  by (simp add: baseFlags_def args_def yargsUnparser_def svcOptions_def keyToFlag_def
      nullish_def jsAnd_def tagWithVersionOf_def allowUnauthenticatedOf_def)

lemma svc_defaults:
  "nameOf (svcOptions c) context = Some ''svc''"
  "tagWithVersionOf (svcOptions c) = False"
  "sidecarsOf (svcOptions c) = []"
  "fst (gcloudDeploy (svcOptions c)) = ''gcloud run deploy''"
  "snd (gcloudDeploy (svcOptions c)) = []"
  "containerFlags (svcOptions c) = c"
  "dockerFile (svcOptions c) = []"
  "dryRun (svcOptions c) = None"
  by (simp_all add: svcOptions_def nameOf_def tagWithVersionOf_def sidecarsOf_def gcloudDeploy_def)

text \<open>
  The command is the verb and the base flags, then the flags of the primary container, then
  the flags of each sidecar in the order of the list.
\<close>

lemma commandParts_groups:
  "commandParts env options n pv =
     filter (\<lambda>part. part \<noteq> []) (fst (gcloudDeploy options) # baseFlags options n pv)
     @ primaryGroup env options
     @ concat (map (sidecarGroup env) (sidecarsOf options))"
proof -
  have verb: "fst (gcloudDeploy options) \<noteq> []"
    by (simp add: gcloudDeploy_def)
  have group: "sidecarGroup env = (\<lambda>s. filter (\<lambda>part. part \<noteq> []) (getContainerFlags env s True))"
    by (rule ext) (simp add: sidecarGroup_def)
  show ?thesis
    by (simp add: commandParts_def primaryGroup_def group sidecarFlags_def filter_concat
        comp_def verb)
qed

lemma deployExecutor_Inr:
  assumes "deployExecutor env fs options context = Inr r"
  shows "\<exists>pv. executed r = fullCommand env options (stringOf (nameOf options context)) pv"
  using assms
  by (auto simp: deployExecutor_def Let_def
      split: option.splits sum.splits if_splits prod.splits)

lemma sample_run:
  "deployExecutor sampleEnv emptyFiles (svcOptions sampleContainer) sampleContext =
     Inr \<lparr> executed = ''gcloud run deploy svc --project p1 --platform managed --quiet --region us-central1 --no-tag --allow-unauthenticated'',
           executedDryRun = None, logged = [], filesAfter = emptyFiles \<rparr>"
  by (simp add: deployExecutor_def outputDirectoryOf_def sampleEnv_def sampleContext_def
      svc_defaults stageDockerfile_def packageVersion_untagged fullCommand_def commandParts_groups
      baseFlags_svc primaryGroup_def containerFlagsOf_def specContainerFlags_def sampleContainer_def)

section \<open>The end-to-end example\<close>

text \<open>
  Claim C5, as amended. For the configuration
  \<^verbatim>\<open>{name: "svc", project: "p1", region: "us-central1", allowUnauthenticated: true}\<close> with no
  sidecars, every run that reaches \<^verbatim>\<open>execCommand\<close> hands it a command that begins
  \<^verbatim>\<open>gcloud run deploy svc --project p1 --platform managed --quiet --region us-central1\<close>: a flag
  and its value are two tokens with a space between them, not one token with an equals sign.
  The command is the stable verb, the base flags and the flags of the primary container; the
  base flags hold \<^verbatim>\<open>--allow-unauthenticated\<close>, no \<^verbatim>\<open>--tag\<close> and no \<^verbatim>\<open>--add-volume\<close>; the flags of
  the primary container are the ones \<^verbatim>\<open>getContainerFlags\<close> gives when it is asked for no
  container identifier.
\<close>

theorem svc_example_command:
  assumes "deployExecutor env fs (svcOptions c) context = Inr r"
  shows "prefix ''gcloud run deploy svc --project p1 --platform managed --quiet --region us-central1''
           (executed r)
       \<and> executed r =
           joinWith '' ''
             (fst (gcloudDeploy (svcOptions c)) # baseFlags (svcOptions c) ''svc'' None
              @ primaryGroup env (svcOptions c))
       \<and> fst (gcloudDeploy (svcOptions c)) = ''gcloud run deploy''
       \<and> ''--allow-unauthenticated'' \<in> set (baseFlags (svcOptions c) ''svc'' None)
       \<and> ''--tag'' \<notin> set (baseFlags (svcOptions c) ''svc'' None)
       \<and> ''--add-volume'' \<notin> set (baseFlags (svcOptions c) ''svc'' None)
       \<and> primaryGroup env (svcOptions c)
           = filter (\<lambda>part. part \<noteq> []) (getContainerFlags env c False)"
proof -
  from deployExecutor_Inr [OF assms] obtain pv where
    "executed r = fullCommand env (svcOptions c) ''svc'' pv"
    by (auto simp: svc_defaults)
  then have run: "executed r =
      joinWith '' ''
        (fst (gcloudDeploy (svcOptions c)) # baseFlags (svcOptions c) ''svc'' None
         @ primaryGroup env (svcOptions c))"
    by (simp add: fullCommand_def commandParts_groups svc_defaults baseFlags_svc)
  have group: "primaryGroup env (svcOptions c)
      = filter (\<lambda>part. part \<noteq> []) (getContainerFlags env c False)"
    by (simp add: primaryGroup_def containerFlagsOf_def svc_defaults)
  have "prefix ''gcloud run deploy svc --project p1 --platform managed --quiet --region us-central1''
           (executed r)"
    unfolding run by (simp add: svc_defaults baseFlags_svc)
  with run group show ?thesis
    by (simp add: svc_defaults baseFlags_svc)
qed

text \<open>The example run: the sample context, no files, the container of the example.\<close>

theorem svc_example_command_witness:
  "deployExecutor sampleEnv emptyFiles (svcOptions sampleContainer) sampleContext =
     Inr \<lparr> executed = ''gcloud run deploy svc --project p1 --platform managed --quiet --region us-central1 --no-tag --allow-unauthenticated'',
           executedDryRun = None, logged = [], filesAfter = emptyFiles \<rparr>
   \<and> prefix ''gcloud run deploy svc --project p1 --platform managed --quiet --region us-central1''
       (executed \<lparr> executed = ''gcloud run deploy svc --project p1 --platform managed --quiet --region us-central1 --no-tag --allow-unauthenticated'',
           executedDryRun = None, logged = [], filesAfter = emptyFiles \<rparr>)
   \<and> ''--allow-unauthenticated'' \<in> set (baseFlags (svcOptions sampleContainer) ''svc'' None)
   \<and> ''--tag'' \<notin> set (baseFlags (svcOptions sampleContainer) ''svc'' None)"
  using svc_example_command [OF sample_run] sample_run by blast

text \<open>
  Claim C5 as it was stated fails on that run: its command does not begin
  \<^verbatim>\<open>gcloud run deploy svc --project=p1 --platform=managed --quiet --region=us-central1\<close>.
\<close>

theorem svc_example_equals_form_counterexample:
  "deployExecutor sampleEnv emptyFiles (svcOptions sampleContainer) sampleContext =
     Inr \<lparr> executed = ''gcloud run deploy svc --project p1 --platform managed --quiet --region us-central1 --no-tag --allow-unauthenticated'',
           executedDryRun = None, logged = [], filesAfter = emptyFiles \<rparr>
   \<and> \<not> prefix ''gcloud run deploy svc --project=p1 --platform=managed --quiet --region=us-central1''
       (executed \<lparr> executed = ''gcloud run deploy svc --project p1 --platform managed --quiet --region us-central1 --no-tag --allow-unauthenticated'',
           executedDryRun = None, logged = [], filesAfter = emptyFiles \<rparr>)"
  by (simp add: sample_run)

section \<open>Omitted optional fields\<close>

lemma concat_map_filter_empty:
  "(\<And>x. x \<in> set xs \<Longrightarrow> \<not> P x \<Longrightarrow> f x = []) \<Longrightarrow> concat (map f (filter P xs)) = concat (map f xs)"
  by (induction xs) auto

lemma yargsUnparser_withoutKey:
  assumes "\<And>v. (key, v) \<in> set (flags a) \<Longrightarrow> unparseOption key v = []"
  shows "yargsUnparser (withoutKey key a) = yargsUnparser a"
  unfolding yargsUnparser_def withoutKey_def
  using assms by (auto intro!: concat_map_filter_empty)

lemma absent_key:
  assumes "\<And>v. (key, v) \<in> set (flags (args options n pv)) \<Longrightarrow> v = Undefined"
  shows "yargsUnparser (withoutKey key (args options n pv)) = baseFlags options n pv"
  unfolding baseFlags_def
  by (rule yargsUnparser_withoutKey) (auto dest: assms)

text \<open>What the executor reads of the option object.\<close>

lemma deployExecutor_reads:
  assumes "outputDirectoryOf env options' context = outputDirectoryOf env options context"
    and "nameOf options' context = nameOf options context"
    and "dockerFile options' = dockerFile options"
    and "tagWithVersionOf options' = tagWithVersionOf options"
    and "manifestTypeOf options' = manifestTypeOf options"
    and "\<And>n pv. fullCommand env options' n pv = fullCommand env options n pv"
    and "gcloudDeploy options' = gcloudDeploy options"
    and "dryRun options' = dryRun options"
  shows "deployExecutor env fs options' context = deployExecutor env fs options context"
  unfolding deployExecutor_def assms ..

lemma deployExecutor_dryRun:
  "deployExecutor env fs (options\<lparr>dryRun := d\<rparr>) context
     = map_sum id (\<lambda>run. run\<lparr>executedDryRun := d\<rparr>) (deployExecutor env fs options context)"
proof -
  have eqs: "outputDirectoryOf env (options\<lparr>dryRun := d\<rparr>) context
        = outputDirectoryOf env options context"
    "nameOf (options\<lparr>dryRun := d\<rparr>) context = nameOf options context"
    "tagWithVersionOf (options\<lparr>dryRun := d\<rparr>) = tagWithVersionOf options"
    "manifestTypeOf (options\<lparr>dryRun := d\<rparr>) = manifestTypeOf options"
    "\<And>n pv. fullCommand env (options\<lparr>dryRun := d\<rparr>) n pv = fullCommand env options n pv"
    "gcloudDeploy (options\<lparr>dryRun := d\<rparr>) = gcloudDeploy options"
    "dockerFile (options\<lparr>dryRun := d\<rparr>) = dockerFile options"
    "dryRun (options\<lparr>dryRun := d\<rparr>) = d"
    by (simp_all add: outputDirectoryOf_def buildTargetOf_def nameOf_def tagWithVersionOf_def
        manifestTypeOf_def fullCommand_def commandParts_def gcloudDeploy_def baseFlags_def
        args_def containerFlagsOf_def sidecarFlags_def sidecarsOf_def allowUnauthenticatedOf_def)
  show ?thesis
    unfolding deployExecutor_def eqs Let_def
    by (simp split: option.splits sum.splits prod.splits)
qed

text \<open>
  Claim C1, as amended. An optional field that is absent leaves no trace among the base flags:
  they are the flags the argument object gives with the key of that field taken out, so neither
  the flag nor its negated form nor a value stands for the field. This holds for every optional
  field with a key but \<^verbatim>\<open>allowUnauthenticated\<close>, whose default is \<^verbatim>\<open>true\<close> and whose flag is
  therefore there when the field is absent, and it says nothing of \<^verbatim>\<open>tagWithVersion\<close>. The
  other optional fields have no key, and so no token of their own. Of these \<^verbatim>\<open>tag\<close>, \<^verbatim>\<open>logsDir\<close>
  and \<^verbatim>\<open>buildWith\<close> are never read: the run is the same whatever they hold. \<^verbatim>\<open>dryRun\<close> is handed
  to \<^verbatim>\<open>execCommand\<close> and changes nothing else of the run. An absent \<^verbatim>\<open>manifestType\<close> is the
  manifest type \<^verbatim>\<open>node\<close>, and an absent \<^verbatim>\<open>buildTarget\<close> is the target \<^verbatim>\<open>build\<close> of the project: the
  run is the one with that value given. No part of the command is empty.
\<close>

theorem omitted_field_leaves_no_token:
  "(minInstances options = None \<longrightarrow>
      yargsUnparser (withoutKey ''min-instances'' (args options n pv)) = baseFlags options n pv)
 \<and> (maxInstances options = None \<longrightarrow>
      yargsUnparser (withoutKey ''max-instances'' (args options n pv)) = baseFlags options n pv)
 \<and> (concurrency options = None \<longrightarrow>
      yargsUnparser (withoutKey ''concurrency'' (args options n pv)) = baseFlags options n pv)
 \<and> (executionEnvironment options = None \<longrightarrow>
      yargsUnparser (withoutKey ''execution-environment'' (args options n pv)) = baseFlags options n pv)
 \<and> (vpcConnector options = None \<longrightarrow>
      yargsUnparser (withoutKey ''vpc-connector'' (args options n pv)) = baseFlags options n pv)
 \<and> (vpcEgress options = None \<longrightarrow>
      yargsUnparser (withoutKey ''vpc-egress'' (args options n pv)) = baseFlags options n pv)
 \<and> (ingress options = None \<longrightarrow>
      yargsUnparser (withoutKey ''ingress'' (args options n pv)) = baseFlags options n pv)
 \<and> (revisionSuffix options = None \<longrightarrow>
      yargsUnparser (withoutKey ''revision-suffix'' (args options n pv)) = baseFlags options n pv)
 \<and> (serviceAccount options = None \<longrightarrow>
      yargsUnparser (withoutKey ''service-account'' (args options n pv)) = baseFlags options n pv)
 \<and> (timeout options = None \<longrightarrow>
      yargsUnparser (withoutKey ''timeout'' (args options n pv)) = baseFlags options n pv)
 \<and> (cloudSqlInstance options = None \<longrightarrow>
      yargsUnparser (withoutKey ''add-cloudsql-instances'' (args options n pv)) = baseFlags options n pv)
 \<and> (cpuBoost options = None \<longrightarrow>
      yargsUnparser (withoutKey ''cpu-boost'' (args options n pv)) = baseFlags options n pv)
 \<and> (noTraffic options = None \<longrightarrow>
      yargsUnparser (withoutKey ''no-traffic'' (args options n pv)) = baseFlags options n pv)
 \<and> (volumeName options = None \<longrightarrow>
      yargsUnparser (withoutKey ''add-volume'' (args options n pv)) = baseFlags options n pv)
 \<and> deployExecutor env fs (options\<lparr>tag := t, logsDir := l, buildWith := b\<rparr>) context
      = deployExecutor env fs options context
 \<and> deployExecutor env fs (options\<lparr>dryRun := d\<rparr>) context
      = map_sum id (\<lambda>run. run\<lparr>executedDryRun := d\<rparr>) (deployExecutor env fs options context)
 \<and> deployExecutor env fs (options\<lparr>manifestType := None\<rparr>) context
      = deployExecutor env fs (options\<lparr>manifestType := Some node\<rparr>) context
 \<and> deployExecutor env fs (options\<lparr>buildTarget := None\<rparr>) context
      = deployExecutor env fs
          (options\<lparr>buildTarget := Some (stringOf (projectName context) @ '':build'')\<rparr>) context
 \<and> [] \<notin> set (commandParts env options n pv)"
proof -
  note reads = outputDirectoryOf_def buildTargetOf_def nameOf_def tagWithVersionOf_def
    manifestTypeOf_def fullCommand_def commandParts_def gcloudDeploy_def baseFlags_def args_def
    containerFlagsOf_def sidecarFlags_def sidecarsOf_def allowUnauthenticatedOf_def
  have unread: "deployExecutor env fs (options\<lparr>tag := t, logsDir := l, buildWith := b\<rparr>) context
      = deployExecutor env fs options context"
    by (rule deployExecutor_reads) (simp_all add: reads)
  have dry: "deployExecutor env fs (options\<lparr>dryRun := d\<rparr>) context
      = map_sum id (\<lambda>run. run\<lparr>executedDryRun := d\<rparr>) (deployExecutor env fs options context)"
    by (rule deployExecutor_dryRun)
  have manifest: "deployExecutor env fs (options\<lparr>manifestType := None\<rparr>) context
      = deployExecutor env fs (options\<lparr>manifestType := Some node\<rparr>) context"
    by (rule deployExecutor_reads) (simp_all add: reads)
  have target: "deployExecutor env fs (options\<lparr>buildTarget := None\<rparr>) context
      = deployExecutor env fs
          (options\<lparr>buildTarget := Some (stringOf (projectName context) @ '':build'')\<rparr>) context"
    by (rule deployExecutor_reads) (simp_all add: reads)
  have parts: "[] \<notin> set (commandParts env options n pv)"
    by (simp add: commandParts_def)
  have k1: "minInstances options = None \<Longrightarrow>
      yargsUnparser (withoutKey ''min-instances'' (args options n pv)) = baseFlags options n pv"
    by (rule absent_key) (auto simp: args_def)
  have k2: "maxInstances options = None \<Longrightarrow>
      yargsUnparser (withoutKey ''max-instances'' (args options n pv)) = baseFlags options n pv"
    by (rule absent_key) (auto simp: args_def)
  have k3: "concurrency options = None \<Longrightarrow>
      yargsUnparser (withoutKey ''concurrency'' (args options n pv)) = baseFlags options n pv"
    by (rule absent_key) (auto simp: args_def)
  have k4: "executionEnvironment options = None \<Longrightarrow>
      yargsUnparser (withoutKey ''execution-environment'' (args options n pv)) = baseFlags options n pv"
    by (rule absent_key) (auto simp: args_def)
  have k5: "vpcConnector options = None \<Longrightarrow>
      yargsUnparser (withoutKey ''vpc-connector'' (args options n pv)) = baseFlags options n pv"
    by (rule absent_key) (auto simp: args_def)
  have k6: "vpcEgress options = None \<Longrightarrow>
      yargsUnparser (withoutKey ''vpc-egress'' (args options n pv)) = baseFlags options n pv"
    by (rule absent_key) (auto simp: args_def)
  have k7: "ingress options = None \<Longrightarrow>
      yargsUnparser (withoutKey ''ingress'' (args options n pv)) = baseFlags options n pv"
    by (rule absent_key) (auto simp: args_def)
  have k8: "revisionSuffix options = None \<Longrightarrow>
      yargsUnparser (withoutKey ''revision-suffix'' (args options n pv)) = baseFlags options n pv"
    by (rule absent_key) (auto simp: args_def nullish_def)
  have k9: "serviceAccount options = None \<Longrightarrow>
      yargsUnparser (withoutKey ''service-account'' (args options n pv)) = baseFlags options n pv"
    by (rule absent_key) (auto simp: args_def)
  have k10: "timeout options = None \<Longrightarrow>
      yargsUnparser (withoutKey ''timeout'' (args options n pv)) = baseFlags options n pv"
    by (rule absent_key) (auto simp: args_def)
  have k11: "cloudSqlInstance options = None \<Longrightarrow>
      yargsUnparser (withoutKey ''add-cloudsql-instances'' (args options n pv)) = baseFlags options n pv"
    by (rule absent_key) (auto simp: args_def)
  have k12: "cpuBoost options = None \<Longrightarrow>
      yargsUnparser (withoutKey ''cpu-boost'' (args options n pv)) = baseFlags options n pv"
    by (rule absent_key) (auto simp: args_def)
  have k13: "noTraffic options = None \<Longrightarrow>
      yargsUnparser (withoutKey ''no-traffic'' (args options n pv)) = baseFlags options n pv"
    by (rule absent_key) (auto simp: args_def nullish_def)
  have k14: "volumeName options = None \<Longrightarrow>
      yargsUnparser (withoutKey ''add-volume'' (args options n pv)) = baseFlags options n pv"
    by (rule absent_key) (auto simp: args_def)
  from unread dry manifest target parts k1 k2 k3 k4 k5 k6 k7 k8 k9 k10 k11 k12 k13 k14
  show ?thesis
    by blast
qed

text \<open>The configuration of the example has none of these fields.\<close>

theorem omitted_field_leaves_no_token_witness:
  "minInstances (svcOptions sampleContainer) = None
   \<and> yargsUnparser (withoutKey ''min-instances'' (args (svcOptions sampleContainer) ''svc'' None))
       = baseFlags (svcOptions sampleContainer) ''svc'' None
   \<and> noTraffic (svcOptions sampleContainer) = None
   \<and> yargsUnparser (withoutKey ''no-traffic'' (args (svcOptions sampleContainer) ''svc'' None))
       = baseFlags (svcOptions sampleContainer) ''svc'' None
   \<and> volumeName (svcOptions sampleContainer) = None
   \<and> yargsUnparser (withoutKey ''add-volume'' (args (svcOptions sampleContainer) ''svc'' None))
       = baseFlags (svcOptions sampleContainer) ''svc'' None
   \<and> [] \<notin> set (commandParts sampleEnv (svcOptions sampleContainer) ''svc'' None)"
proof -
  have absent: "minInstances (svcOptions sampleContainer) = None"
    "noTraffic (svcOptions sampleContainer) = None"
    "volumeName (svcOptions sampleContainer) = None"
    by (simp_all add: svcOptions_def)
  from omitted_field_leaves_no_token
         [where options = "svcOptions sampleContainer" and n = "''svc''" and pv = None
            and env = sampleEnv] absent
  show ?thesis by blast
qed

text \<open>
  Claim C1 as it was stated fails where \<^verbatim>\<open>allowUnauthenticated\<close> is absent: the command holds
  \<^verbatim>\<open>--allow-unauthenticated\<close>.
\<close>

theorem omitted_allow_unauthenticated_counterexample:
  "allowUnauthenticated ((svcOptions sampleContainer)\<lparr>allowUnauthenticated := None\<rparr>) = None
   \<and> ''--allow-unauthenticated''
       \<in> set (commandParts sampleEnv ((svcOptions sampleContainer)\<lparr>allowUnauthenticated := None\<rparr>)
                ''svc'' None)"
proof -
  let ?v = "(svcOptions sampleContainer)\<lparr>allowUnauthenticated := None\<rparr>"
  have "baseFlags ?v ''svc'' None =
     [''svc'', ''--project'', ''p1'', ''--platform'', ''managed'', ''--quiet'', ''--region'',
      ''us-central1'', ''--no-tag'', ''--allow-unauthenticated'']"
    by (simp add: baseFlags_def args_def yargsUnparser_def svcOptions_def keyToFlag_def
      nullish_def jsAnd_def tagWithVersionOf_def allowUnauthenticatedOf_def)
  then show ?thesis
    by (simp add: commandParts_groups gcloudDeploy_def)
qed

section \<open>The volume\<close>

lemma baseFlags_volume:
  "baseFlags options n pv =
     baseFlags (options\<lparr>volumeName := None\<rparr>) n pv
     @ (if truthy (ofString (volumeName options))
        then [''--add-volume'', ''name='' @ stringOf (volumeName options)] else [])"
  by (simp add: baseFlags_def args_def yargsUnparser_def keyToFlag_def tagWithVersionOf_def
      allowUnauthenticatedOf_def)

lemma groups_without_volume:
  "primaryGroup env (options\<lparr>volumeName := v\<rparr>) = primaryGroup env options"
  "sidecarsOf (options\<lparr>volumeName := v\<rparr>) = sidecarsOf options"
  by (simp_all add: primaryGroup_def containerFlagsOf_def sidecarsOf_def)

text \<open>
  Claim C4, as amended. A volume name that is not empty makes the verb
  \<^verbatim>\<open>gcloud beta run deploy\<close> and adds one flag with its value, the two tokens \<^verbatim>\<open>--add-volume\<close>
  and \<^verbatim>\<open>name=<volumeName>\<close>, after the other base flags and before the flags of the
  containers; nothing else of the command changes. A volume name that is absent or empty leaves
  the verb \<^verbatim>\<open>gcloud run deploy\<close> and adds nothing.
\<close>

theorem volume_switches_verb_and_adds_pair:
  "(\<forall>v. volumeName options = Some v \<and> v \<noteq> [] \<longrightarrow>
      commandParts env options n pv =
        ''gcloud beta run deploy''
        # filter (\<lambda>part. part \<noteq> []) (baseFlags (options\<lparr>volumeName := None\<rparr>) n pv)
        @ [''--add-volume'', ''name='' @ v]
        @ primaryGroup env options
        @ concat (map (sidecarGroup env) (sidecarsOf options)))
 \<and> (volumeName options = None \<or> volumeName options = Some [] \<longrightarrow>
      commandParts env options n pv =
        ''gcloud run deploy''
        # filter (\<lambda>part. part \<noteq> []) (baseFlags (options\<lparr>volumeName := None\<rparr>) n pv)
        @ primaryGroup env options
        @ concat (map (sidecarGroup env) (sidecarsOf options)))"
proof (intro conjI allI impI)
  fix v
  assume "volumeName options = Some v \<and> v \<noteq> []"
  then show "commandParts env options n pv =
        ''gcloud beta run deploy''
        # filter (\<lambda>part. part \<noteq> []) (baseFlags (options\<lparr>volumeName := None\<rparr>) n pv)
        @ [''--add-volume'', ''name='' @ v]
        @ primaryGroup env options
        @ concat (map (sidecarGroup env) (sidecarsOf options))"
    by (simp add: commandParts_groups baseFlags_volume [of options] gcloudDeploy_def)
next
  assume "volumeName options = None \<or> volumeName options = Some []"
  then show "commandParts env options n pv =
        ''gcloud run deploy''
        # filter (\<lambda>part. part \<noteq> []) (baseFlags (options\<lparr>volumeName := None\<rparr>) n pv)
        @ primaryGroup env options
        @ concat (map (sidecarGroup env) (sidecarsOf options))"
    by (auto simp: commandParts_groups baseFlags_volume [of options] gcloudDeploy_def)
qed

text \<open>The example with the volume \<^verbatim>\<open>vol1\<close>, and without a volume.\<close>

theorem volume_switches_verb_and_adds_pair_witness:
  "volumeName ((svcOptions sampleContainer)\<lparr>volumeName := Some ''vol1''\<rparr>) = Some ''vol1''
   \<and> ''vol1'' \<noteq> []
   \<and> commandParts sampleEnv ((svcOptions sampleContainer)\<lparr>volumeName := Some ''vol1''\<rparr>) ''svc'' None =
     [''gcloud beta run deploy'', ''svc'', ''--project'', ''p1'', ''--platform'', ''managed'',
      ''--quiet'', ''--region'', ''us-central1'', ''--no-tag'', ''--allow-unauthenticated'',
      ''--add-volume'', ''name=vol1'']
   \<and> volumeName (svcOptions sampleContainer) = None
   \<and> commandParts sampleEnv (svcOptions sampleContainer) ''svc'' None =
     [''gcloud run deploy'', ''svc'', ''--project'', ''p1'', ''--platform'', ''managed'',
      ''--quiet'', ''--region'', ''us-central1'', ''--no-tag'', ''--allow-unauthenticated'']"
proof -
  let ?o = "svcOptions sampleContainer"
  let ?v = "?o\<lparr>volumeName := Some ''vol1''\<rparr>"
  have same: "?v\<lparr>volumeName := None\<rparr> = ?o" "?o\<lparr>volumeName := None\<rparr> = ?o"
    by (simp_all add: svcOptions_def)
  have group: "primaryGroup sampleEnv ?o = []"
    by (simp add: primaryGroup_def containerFlagsOf_def svc_defaults sampleEnv_def
        specContainerFlags_def sampleContainer_def)
  have v: "volumeName ?v = Some ''vol1''" and o: "volumeName ?o = None"
    by (simp_all add: svcOptions_def)
  from volume_switches_verb_and_adds_pair [of ?v sampleEnv "''svc''" None] v
  have "commandParts sampleEnv ?v ''svc'' None =
        ''gcloud beta run deploy''
        # filter (\<lambda>part. part \<noteq> []) (baseFlags (?v\<lparr>volumeName := None\<rparr>) ''svc'' None)
        @ [''--add-volume'', ''name='' @ ''vol1'']
        @ primaryGroup sampleEnv ?v
        @ concat (map (sidecarGroup sampleEnv) (sidecarsOf ?v))"
    by blast
  then have a: "commandParts sampleEnv ?v ''svc'' None =
     [''gcloud beta run deploy'', ''svc'', ''--project'', ''p1'', ''--platform'', ''managed'',
      ''--quiet'', ''--region'', ''us-central1'', ''--no-tag'', ''--allow-unauthenticated'',
      ''--add-volume'', ''name=vol1'']"
    by (simp add: same groups_without_volume group svc_defaults baseFlags_svc)
  from volume_switches_verb_and_adds_pair [of ?o sampleEnv "''svc''" None] o
  have "commandParts sampleEnv ?o ''svc'' None =
        ''gcloud run deploy''
        # filter (\<lambda>part. part \<noteq> []) (baseFlags (?o\<lparr>volumeName := None\<rparr>) ''svc'' None)
        @ primaryGroup sampleEnv ?o
        @ concat (map (sidecarGroup sampleEnv) (sidecarsOf ?o))"
    by blast
  then have b: "commandParts sampleEnv ?o ''svc'' None =
     [''gcloud run deploy'', ''svc'', ''--project'', ''p1'', ''--platform'', ''managed'',
      ''--quiet'', ''--region'', ''us-central1'', ''--no-tag'', ''--allow-unauthenticated'']"
    by (simp add: same group svc_defaults baseFlags_svc)
  from a b v o show ?thesis by simp
qed

text \<open>
  Claim C4 as it was stated fails with the volume \<^verbatim>\<open>vol1\<close>: no token of the command is
  \<^verbatim>\<open>--add-volume=name=vol1\<close>.
\<close>

theorem volume_single_token_counterexample:
  "volumeName ((svcOptions sampleContainer)\<lparr>volumeName := Some ''vol1''\<rparr>) = Some ''vol1''
   \<and> ''--add-volume=name=vol1''
       \<notin> set (commandParts sampleEnv ((svcOptions sampleContainer)\<lparr>volumeName := Some ''vol1''\<rparr>)
                ''svc'' None)"
proof -
  let ?v = "(svcOptions sampleContainer)\<lparr>volumeName := Some ''vol1''\<rparr>"
  have "baseFlags ?v ''svc'' None =
     [''svc'', ''--project'', ''p1'', ''--platform'', ''managed'', ''--quiet'', ''--region'',
      ''us-central1'', ''--no-tag'', ''--allow-unauthenticated'', ''--add-volume'', ''name=vol1'']"
    by (simp add: baseFlags_def args_def yargsUnparser_def svcOptions_def keyToFlag_def
      nullish_def jsAnd_def tagWithVersionOf_def allowUnauthenticatedOf_def)
  then show ?thesis
    by (simp add: commandParts_groups primaryGroup_def containerFlagsOf_def sidecarsOf_def
        sampleEnv_def specContainerFlags_def gcloudDeploy_def)
      (simp add: svcOptions_def sampleContainer_def)
qed

section \<open>The tag of a deployment without version tagging\<close>

text \<open>
  Claim C3 says that no token about a tag stands in the command unless \<^verbatim>\<open>tagWithVersion\<close> is
  asked for and the version was found. The run of the example, where \<^verbatim>\<open>tagWithVersion\<close> is
  absent, hands \<^verbatim>\<open>execCommand\<close> a command with the token \<^verbatim>\<open>--no-tag\<close>: line 167 gives the key
  \<^verbatim>\<open>tag\<close> the value \<^verbatim>\<open>false ?? undefined\<close>, which is \<^verbatim>\<open>false\<close>.
\<close>

theorem untagged_command_carries_no_tag:
  "tagWithVersion (svcOptions sampleContainer) = None
   \<and> deployExecutor sampleEnv emptyFiles (svcOptions sampleContainer) sampleContext =
     Inr \<lparr> executed = ''gcloud run deploy svc --project p1 --platform managed --quiet --region us-central1 --no-tag --allow-unauthenticated'',
           executedDryRun = None, logged = [], filesAfter = emptyFiles \<rparr>
   \<and> ''--no-tag'' \<in> set (commandParts sampleEnv (svcOptions sampleContainer) ''svc'' None)"
  by (simp add: sample_run commandParts_groups baseFlags_svc) (simp add: svcOptions_def)

section \<open>Sidecars\<close>



section \<open>The configuration errors\<close>

lemma readFileSync_error: "readFileSync fs p = Inl e \<Longrightarrow> \<exists>m. e = SystemError m"
  by (auto simp: readFileSync_def split: fileEntry.splits)

lemma stageDockerfile_error:
  "stageDockerfile env fs w d f = Inl e \<Longrightarrow> \<exists>m. e = SystemError m"
  by (auto simp: stageDockerfile_def writeFileSync_def
      split: if_splits sum.splits option.splits dest: readFileSync_error)

lemma readJsonFile_error:
  "readJsonFile env fs p = Inl e \<Longrightarrow> e = JsonParseError \<or> (\<exists>m. e = SystemError m)"
  by (auto simp: readJsonFile_def split: sum.splits option.splits dest: readFileSync_error)

lemma packageVersion_error:
  "packageVersion env fs w r t m = Inl e \<Longrightarrow>
     e = TypeError \<or> e = JsonParseError \<or> (\<exists>m. e = SystemError m)"
  by (auto simp: packageVersion_def Let_def
      split: if_splits manifestKind.splits sum.splits option.splits json.splits
      dest: readJsonFile_error)

lemma truthy_ofString: "truthy (ofString x) = (\<exists>d. x = Some d \<and> d \<noteq> [])"
  by (cases x) auto

lemma not_truthy_ofString: "(\<not> truthy (ofString x)) = (x = None \<or> x = Some [])"
  by (cases x) auto

lemma nameOf_empty:
  "(\<not> truthy (ofString (nameOf options context))) =
     (case name options of
        Some n \<Rightarrow> n = []
      | None \<Rightarrow> projectName context = None \<or> projectName context = Some [])"
  by (simp add: nameOf_def not_truthy_ofString split: option.splits)

lemma deployExecutor_no_project:
  "projects context (stringOf (projectName context)) = None \<Longrightarrow>
     deployExecutor env fs options context = Inl TypeError"
  by (simp add: deployExecutor_def)

lemma deployExecutor_no_output:
  "projects context (stringOf (projectName context)) = Some pc \<Longrightarrow>
   \<not> truthy (ofString (outputDirectoryOf env options context)) \<Longrightarrow>
     deployExecutor env fs options context = Inl OutputPathNotConfigured"
  by (simp add: deployExecutor_def)

lemma deployExecutor_no_name:
  "projects context (stringOf (projectName context)) = Some pc \<Longrightarrow>
   truthy (ofString (outputDirectoryOf env options context)) \<Longrightarrow>
   \<not> truthy (ofString (nameOf options context)) \<Longrightarrow>
     deployExecutor env fs options context = Inl ProjectNameRequired"
  by (simp add: deployExecutor_def)

lemma deployExecutor_configured:
  assumes "projects context (stringOf (projectName context)) = Some pc"
    and "truthy (ofString (outputDirectoryOf env options context))"
    and "truthy (ofString (nameOf options context))"
  shows "deployExecutor env fs options context \<noteq> Inl OutputPathNotConfigured"
    and "deployExecutor env fs options context \<noteq> Inl ProjectNameRequired"
  using assms
  by (auto simp: deployExecutor_def Let_def split: sum.splits prod.splits
      dest: stageDockerfile_error packageVersion_error)

lemma deployExecutor_dockerfile_unread:
  assumes "projects context (stringOf (projectName context)) = Some pc"
    and "truthy (ofString (outputDirectoryOf env options context))"
    and "truthy (ofString (nameOf options context))"
    and "dockerFile options \<noteq> []"
    and "readFileSync fs (join env [workspaceRoot context, dockerFile options]) = Inl e"
  shows "deployExecutor env fs options context = Inl e"
  using assms by (simp add: deployExecutor_def Let_def stageDockerfile_def)

text \<open>
  Claim C8, as amended. With the project found in the project table, the executor throws
  \<^verbatim>\<open>Build target has no "outputPath" configured!\<close> exactly when the output directory of the build
  target is absent or empty, and \<^verbatim>\<open>Project name is required (name)\<close> exactly when the output
  directory is there and the name, which is \<^verbatim>\<open>options.name\<close> when that is given and the project
  name otherwise, is absent or empty. Either way the run ends before a file is written and
  before a command is composed. A configuration with an output directory and a name never
  meets these two errors; it can still end in another one: a Dockerfile that is named and
  cannot be read ends the run with the error of the read.
\<close>

theorem configuration_errors:
  "(deployExecutor env fs options context = Inl OutputPathNotConfigured \<longleftrightarrow>
      projects context (stringOf (projectName context)) \<noteq> None
      \<and> (outputDirectoryOf env options context = None
         \<or> outputDirectoryOf env options context = Some []))
 \<and> (deployExecutor env fs options context = Inl ProjectNameRequired \<longleftrightarrow>
      projects context (stringOf (projectName context)) \<noteq> None
      \<and> (\<exists>d. outputDirectoryOf env options context = Some d \<and> d \<noteq> [])
      \<and> (case name options of
            Some n \<Rightarrow> n = []
          | None \<Rightarrow> projectName context = None \<or> projectName context = Some []))
 \<and> (projects context (stringOf (projectName context)) \<noteq> None
      \<and> (\<exists>d. outputDirectoryOf env options context = Some d \<and> d \<noteq> [])
      \<and> (\<exists>n. nameOf options context = Some n \<and> n \<noteq> [])
      \<and> dockerFile options \<noteq> []
      \<and> readFileSync fs (join env [workspaceRoot context, dockerFile options]) = Inl e
      \<longrightarrow> deployExecutor env fs options context = Inl e)"
proof -
  let ?run = "deployExecutor env fs options context"
  let ?found = "projects context (stringOf (projectName context)) \<noteq> None"
  let ?out = "truthy (ofString (outputDirectoryOf env options context))"
  let ?named = "truthy (ofString (nameOf options context))"
  have "(?run = Inl OutputPathNotConfigured \<longleftrightarrow> ?found \<and> \<not> ?out)
      \<and> (?run = Inl ProjectNameRequired \<longleftrightarrow> ?found \<and> ?out \<and> \<not> ?named)
      \<and> (?found \<and> ?out \<and> ?named \<and> dockerFile options \<noteq> []
           \<and> readFileSync fs (join env [workspaceRoot context, dockerFile options]) = Inl e
          \<longrightarrow> ?run = Inl e)"
  proof (cases "projects context (stringOf (projectName context))")
    case None
    then show ?thesis
      by (simp add: deployExecutor_no_project)
  next
    case (Some pc)
    show ?thesis
    proof (cases ?out)
      case False
      with Some deployExecutor_no_output [OF Some False] show ?thesis
        by simp
    next
      case out: True
      show ?thesis
      proof (cases ?named)
        case False
        with Some out deployExecutor_no_name [OF Some out False] show ?thesis
          by simp
      next
        case named: True
        from deployExecutor_configured [OF Some out named]
          deployExecutor_dockerfile_unread [OF Some out named]
          Some out named
        show ?thesis
          by simp
      qed
    qed
  qed
  then have "(?run = Inl OutputPathNotConfigured \<longleftrightarrow>
        ?found
        \<and> (outputDirectoryOf env options context = None
           \<or> outputDirectoryOf env options context = Some []))
      \<and> (?run = Inl ProjectNameRequired \<longleftrightarrow>
        ?found \<and> ?out
        \<and> (case name options of
              Some n \<Rightarrow> n = []
            | None \<Rightarrow> projectName context = None \<or> projectName context = Some []))
      \<and> (?found \<and> ?out \<and> ?named \<and> dockerFile options \<noteq> []
           \<and> readFileSync fs (join env [workspaceRoot context, dockerFile options]) = Inl e
          \<longrightarrow> ?run = Inl e)"
    unfolding nameOf_empty not_truthy_ofString [of "outputDirectoryOf env options context"] .
  then show ?thesis
    unfolding truthy_ofString .
qed

text \<open>An empty name, a build target without output directory, a Dockerfile that is missing.\<close>

theorem configuration_errors_witness:
  "deployExecutor sampleEnv emptyFiles ((svcOptions sampleContainer)\<lparr>name := Some []\<rparr>)
     sampleContext = Inl ProjectNameRequired
   \<and> deployExecutor (sampleEnv\<lparr>getOutputDirectoryFromBuildTarget := \<lambda>c t. None\<rparr>) emptyFiles
       (svcOptions sampleContainer) sampleContext = Inl OutputPathNotConfigured
   \<and> deployExecutor sampleEnv emptyFiles
       ((svcOptions sampleContainer)\<lparr>dockerFile := ''Dockerfile''\<rparr>) sampleContext
       = Inl (SystemError ''ENOENT'')"
proof -
  let ?unnamed = "(svcOptions sampleContainer)\<lparr>name := Some []\<rparr>"
  let ?env = "sampleEnv\<lparr>getOutputDirectoryFromBuildTarget := \<lambda>c t. None\<rparr>"
  let ?docker = "(svcOptions sampleContainer)\<lparr>dockerFile := ''Dockerfile''\<rparr>"
  have found: "projects sampleContext (stringOf (projectName sampleContext)) \<noteq> None"
    by (simp add: sampleContext_def)
  have out: "outputDirectoryOf sampleEnv ?unnamed sampleContext = Some ''dist/apps/svc''"
    "outputDirectoryOf sampleEnv ?docker sampleContext = Some ''dist/apps/svc''"
    "outputDirectoryOf ?env (svcOptions sampleContainer) sampleContext = None"
    by (simp_all add: outputDirectoryOf_def sampleEnv_def)
  have names: "name ?unnamed = Some []" "nameOf ?docker sampleContext = Some ''svc''"
    "dockerFile ?docker \<noteq> []"
    by (simp_all add: svcOptions_def nameOf_def)
  have unread: "readFileSync emptyFiles (join sampleEnv [workspaceRoot sampleContext, dockerFile ?docker])
      = Inl (SystemError ''ENOENT'')"
    by (simp add: readFileSync_def emptyFiles_def)
  from configuration_errors [of sampleEnv emptyFiles ?unnamed sampleContext] found out(1) names(1)
  have a: "deployExecutor sampleEnv emptyFiles ?unnamed sampleContext = Inl ProjectNameRequired"
    by simp
  from configuration_errors [of ?env emptyFiles "svcOptions sampleContainer" sampleContext]
    found out(3)
  have b: "deployExecutor ?env emptyFiles (svcOptions sampleContainer) sampleContext
      = Inl OutputPathNotConfigured"
    by simp
  from configuration_errors
         [of sampleEnv emptyFiles ?docker sampleContext "SystemError ''ENOENT''"]
    found out(2) names(2,3) unread
  have c: "deployExecutor sampleEnv emptyFiles ?docker sampleContext = Inl (SystemError ''ENOENT'')"
    by simp
  from a b c show ?thesis by simp
qed

text \<open>
  Claim C8 as it was stated fails where the Dockerfile is missing: the output directory is
  resolved and the name is \<^verbatim>\<open>svc\<close>, and the run still ends in an error.
\<close>

theorem missing_dockerfile_counterexample:
  "outputDirectoryOf sampleEnv ((svcOptions sampleContainer)\<lparr>dockerFile := ''Dockerfile''\<rparr>)
     sampleContext = Some ''dist/apps/svc''
   \<and> nameOf ((svcOptions sampleContainer)\<lparr>dockerFile := ''Dockerfile''\<rparr>) sampleContext
       = Some ''svc''
   \<and> deployExecutor sampleEnv emptyFiles
       ((svcOptions sampleContainer)\<lparr>dockerFile := ''Dockerfile''\<rparr>) sampleContext
       = Inl (SystemError ''ENOENT'')"
  by (simp add: deployExecutor_def outputDirectoryOf_def sampleEnv_def sampleContext_def
      nameOf_def svcOptions_def stageDockerfile_def readFileSync_def emptyFiles_def)

section \<open>A manifest that is not JSON\<close>

text \<open>
  Claim C2 says that version resolution never ends the run. With \<^verbatim>\<open>tagWithVersion\<close> set, the
  manifest kind left at its default \<^verbatim>\<open>node\<close> and a \<^verbatim>\<open>package.json\<close> that holds the text \<^verbatim>\<open>{\<close>,
  \<^verbatim>\<open>readJsonFile\<close> throws and nothing catches it: the run ends in the parse error. With a
  \<^verbatim>\<open>package.json\<close> that holds \<^verbatim>\<open>{}\<close> the run goes on without a tag, and logs nothing.
\<close>

theorem broken_manifest_ends_run:
  "deployExecutor sampleEnv brokenManifestFiles
     ((svcOptions sampleContainer)\<lparr>tagWithVersion := Some True\<rparr>) sampleContext
     = Inl JsonParseError
   \<and> deployExecutor sampleEnv unversionedManifestFiles
       ((svcOptions sampleContainer)\<lparr>tagWithVersion := Some True\<rparr>) sampleContext
     = Inr \<lparr> executed = ''gcloud run deploy svc --project p1 --platform managed --quiet --region us-central1 --allow-unauthenticated'',
             executedDryRun = None, logged = [], filesAfter = unversionedManifestFiles \<rparr>"
  by (simp add: deployExecutor_def outputDirectoryOf_def sampleEnv_def sampleContext_def
      sampleProject_def nameOf_def tagWithVersionOf_def manifestTypeOf_def svcOptions_def
      stageDockerfile_def packageVersion_def existsSync_def readJsonFile_def readFileSync_def
      brokenManifestFiles_def unversionedManifestFiles_def sampleJson_def manifestText_def
      fullCommand_def commandParts_def baseFlags_def args_def yargsUnparser_def keyToFlag_def
      nullish_def jsAnd_def allowUnauthenticatedOf_def gcloudDeploy_def containerFlagsOf_def
      sidecarFlags_def sidecarsOf_def specContainerFlags_def sampleContainer_def)

section \<open>The version tag\<close>

lemma spaceAtHead_Some: "spaceAtHead s = Some x \<Longrightarrow> x \<in> set spaceChars \<and> prefix x s"
  by (auto simp: spaceAtHead_def find_Some_iff)

lemma spaceAtHead_space: "x \<in> set spaceChars \<Longrightarrow> spaceAtHead (x @ r) = Some x"
  unfolding spaceChars_def spaceAtHead_def by (elim set_ConsD [elim_format] disjE; simp)

lemma spaceAtHead_other:
  "c \<notin> {CHR 0x09, CHR 0x0A, CHR 0x0B, CHR 0x0C, CHR 0x0D, CHR 0x20, CHR 0xC2, CHR 0xE1,
         CHR 0xE2, CHR 0xE3, CHR 0xEF} \<Longrightarrow> spaceAtHead (c # r) = None"
  unfolding spaceAtHead_def find_None_iff spaceChars_def by auto

lemma spaceAtHead_Nil: "spaceAtHead [] = None"
  by (simp add: spaceAtHead_def spaceChars_def)

lemma spaceRun_None: "spaceAtHead s = None \<Longrightarrow> spaceRun s = ([], s)"
  by (simp add: spaceRun.simps)

lemma spaceRun_Some:
  "spaceAtHead s = Some x \<Longrightarrow>
     spaceRun s = (x # fst (spaceRun (drop (length x) s)), snd (spaceRun (drop (length x) s)))"
  by (simp add: spaceRun.simps)

lemma spaceRun_concat:
  "set xs \<subseteq> set spaceChars \<Longrightarrow>
     spaceRun (concat xs @ r) = (xs @ fst (spaceRun r), snd (spaceRun r))"
proof (induction xs)
  case Nil
  then show ?case by simp
next
  case (Cons x xs)
  then have "spaceAtHead (x @ concat xs @ r) = Some x"
    by (simp add: spaceAtHead_space)
  from spaceRun_Some [OF this] Cons show ?case
    by simp
qed

lemma spaceRun_sound:
  "spaceRun s = (xs, r) \<Longrightarrow> s = concat xs @ r \<and> set xs \<subseteq> set spaceChars \<and> spaceAtHead r = None"
proof (induction s arbitrary: xs r rule: spaceRun.induct)
  case (1 s)
  show ?case
  proof (cases "spaceAtHead s")
    case None
    with 1(3) show ?thesis
      by (simp add: spaceRun_None)
  next
    case (Some x)
    obtain ys r' where rest: "spaceRun (drop (length x) s) = (ys, r')"
      by (cases "spaceRun (drop (length x) s)")
    from 1(1) [OF Some rest]
    have ih: "drop (length x) s = concat ys @ r'" "set ys \<subseteq> set spaceChars" "spaceAtHead r' = None"
      by simp_all
    from spaceAtHead_Some [OF Some] have x: "x \<in> set spaceChars" "prefix x s"
      by simp_all
    then have s: "s = x @ drop (length x) s"
      by (auto simp: prefix_def)
    from spaceRun_Some [OF Some] rest 1(3) have "xs = x # ys" "r = r'"
      by simp_all
    with ih x s show ?thesis
      by (metis append.assoc concat.simps(2) insert_subset list.simps(15))
  qed
qed

lemma skipSpaces_other:
  assumes "spaces ws"
    and "c \<notin> {CHR 0x09, CHR 0x0A, CHR 0x0B, CHR 0x0C, CHR 0x0D, CHR 0x20, CHR 0xC2, CHR 0xE1,
         CHR 0xE2, CHR 0xE3, CHR 0xEF}"
  shows "skipSpaces (ws @ c # r) = c # r"
  using assms spaceRun_concat [of _ "c # r"] spaceRun_None [OF spaceAtHead_other [of c r]]
  by (auto simp: spaces_def skipSpaces_def)

lemma skipSpaces_end: "spaces ws \<Longrightarrow> skipSpaces ws = []"
  using spaceRun_concat [of _ "[]"] spaceRun_None [OF spaceAtHead_Nil]
  by (auto simp: spaces_def skipSpaces_def)

lemma lineTerminator_space: "t \<in> set lineTerminators \<Longrightarrow> t \<in> set spaceChars"
  by (auto simp: lineTerminators_def spaceChars_def)

lemma spaceRun_terminator:
  assumes "spaces ws" and "t \<in> set lineTerminators"
  shows "list_ex (\<lambda>x. x \<in> set lineTerminators) (fst (spaceRun (ws @ t @ p)))"
proof -
  from assms(1) obtain xs where xs: "set xs \<subseteq> set spaceChars" "ws = concat xs"
    by (auto simp: spaces_def)
  have "spaceAtHead (t @ p) = Some t"
    by (simp add: spaceAtHead_space lineTerminator_space assms(2))
  from spaceRun_Some [OF this] have "t \<in> set (fst (spaceRun (t @ p)))"
    by simp
  with spaceRun_concat [OF xs(1), of "t @ p"] xs(2) assms(2) show ?thesis
    by (auto simp: list_ex_iff)
qed

lemma skipSpaces_sound: "\<exists>ws. spaces ws \<and> s = ws @ skipSpaces s"
proof -
  obtain xs r where run: "spaceRun s = (xs, r)"
    by (cases "spaceRun s")
  from spaceRun_sound [OF run] run show ?thesis
    by (auto simp: spaces_def skipSpaces_def)
qed

lemma quote_other:
  "isQuote c \<Longrightarrow> c \<notin> {CHR 0x09, CHR 0x0A, CHR 0x0B, CHR 0x0C, CHR 0x0D, CHR 0x20, CHR 0xC2, CHR 0xE1,
         CHR 0xE2, CHR 0xE3, CHR 0xEF}"
  by (auto simp: isQuote_def)

lemma matchVersionAt_Some_iff:
  "matchVersionAt s = Some v \<longleftrightarrow>
     (\<exists>s2 q s3 q' s4.
        take 7 (skipSpaces s) = ''version''
        \<and> skipSpaces (drop 7 (skipSpaces s)) = CHR ''='' # s2
        \<and> skipSpaces s2 = q # s3 \<and> isQuote q
        \<and> v = takeWhile (\<lambda>c. \<not> isQuote c) s3 \<and> v \<noteq> []
        \<and> dropWhile (\<lambda>c. \<not> isQuote c) s3 = q' # s4
        \<and> (skipSpaces s4 = [] \<or> list_ex (\<lambda>x. x \<in> set lineTerminators) (fst (spaceRun s4))))"
proof -
  define s1 where "s1 = skipSpaces s"
  define r2 where "r2 = skipSpaces (drop 7 s1)"
  show ?thesis
  proof (cases "take 7 s1 = ''version''")
    case False
    then show ?thesis
      by (simp add: matchVersionAt_def Let_def s1_def)
  next
    case version: True
    show ?thesis
    proof (cases r2)
      case Nil
      with version show ?thesis
        by (simp add: matchVersionAt_def Let_def s1_def r2_def)
    next
      case r2: (Cons e s2)
      show ?thesis
      proof (cases "skipSpaces s2")
        case Nil
        with version r2 show ?thesis
          by (auto simp: matchVersionAt_def Let_def s1_def r2_def)
      next
        case r3: (Cons q s3)
        show ?thesis
        proof (cases "dropWhile (\<lambda>c. \<not> isQuote c) s3")
          case Nil
          with version r2 r3 show ?thesis
            by (auto simp: matchVersionAt_def Let_def s1_def r2_def
                simp del: dropWhile_eq_Nil_conv)
        next
          case (Cons q' s4)
          with version r2 r3 show ?thesis
            by (auto simp: matchVersionAt_def Let_def s1_def r2_def
                simp del: dropWhile_eq_Nil_conv)
        qed
      qed
    qed
  qed
qed

lemma matchVersionAt_complete:
  assumes "versionLine v l" and "atLineEnd post"
  shows "matchVersionAt (l @ post) = Some v"
proof -
  from assms(1) obtain ws1 ws2 ws3 ws4 q1 q2 where
    l: "l = ws1 @ ''version'' @ ws2 @ ''='' @ ws3 @ [q1] @ v @ [q2] @ ws4"
    and ws: "spaces ws1" "spaces ws2" "spaces ws3" "spaces ws4"
    and q: "isQuote q1" "isQuote q2" and v: "v \<noteq> []" "\<not> list_ex isQuote v"
    by (auto simp: versionLine_def)
  let ?s4 = "ws4 @ post"
  let ?s3 = "v @ q2 # ?s4"
  let ?s2 = "ws3 @ q1 # ?s3"
  let ?s1' = "ws2 @ CHR ''='' # ?s2"
  let ?s1 = "''version'' @ ?s1'"
  have s: "l @ post = ws1 @ ?s1"
    by (simp add: l)
  have a: "skipSpaces (l @ post) = ?s1"
    unfolding s using skipSpaces_other [OF ws(1), of "CHR ''v''"] by simp
  have b: "skipSpaces ?s1' = CHR ''='' # ?s2"
    using skipSpaces_other [OF ws(2), of "CHR ''=''"] by simp
  have c: "skipSpaces ?s2 = q1 # ?s3"
    using skipSpaces_other [OF ws(3) quote_other [OF q(1)]] by simp
  have d: "takeWhile (\<lambda>c. \<not> isQuote c) ?s3 = v" "dropWhile (\<lambda>c. \<not> isQuote c) ?s3 = q2 # ?s4"
    using v(2) q(2) by (simp_all add: list_ex_iff takeWhile_tail dropWhile_append3)
  have e: "skipSpaces ?s4 = [] \<or> list_ex (\<lambda>x. x \<in> set lineTerminators) (fst (spaceRun ?s4))"
    using assms(2) skipSpaces_end [OF ws(4)] spaceRun_terminator [OF ws(4)]
    by (auto simp: atLineEnd_def)
  show ?thesis
    unfolding matchVersionAt_Some_iff a
    using b c d e q(1) v(1) by simp
qed

lemma matchVersionAt_sound:
  assumes "matchVersionAt s = Some v"
  shows "\<exists>l post. s = l @ post \<and> versionLine v l \<and> atLineEnd post"
proof -
  from assms obtain s2 q s3 q' s4 where
    a: "take 7 (skipSpaces s) = ''version''"
    and b: "skipSpaces (drop 7 (skipSpaces s)) = CHR ''='' # s2"
    and c: "skipSpaces s2 = q # s3" "isQuote q"
    and d: "v = takeWhile (\<lambda>c. \<not> isQuote c) s3" "v \<noteq> []"
      "dropWhile (\<lambda>c. \<not> isQuote c) s3 = q' # s4"
    and e: "skipSpaces s4 = [] \<or> list_ex (\<lambda>x. x \<in> set lineTerminators) (fst (spaceRun s4))"
    unfolding matchVersionAt_Some_iff by blast
  from skipSpaces_sound [of s] obtain ws1 where ws1: "spaces ws1" "s = ws1 @ skipSpaces s"
    by blast
  from a append_take_drop_id [of 7 "skipSpaces s"]
  have s1: "skipSpaces s = ''version'' @ drop 7 (skipSpaces s)"
    by simp
  from skipSpaces_sound [of "drop 7 (skipSpaces s)"] b obtain ws2 where
    ws2: "spaces ws2" "drop 7 (skipSpaces s) = ws2 @ CHR ''='' # s2"
    by auto
  from skipSpaces_sound [of s2] c(1) obtain ws3 where ws3: "spaces ws3" "s2 = ws3 @ q # s3"
    by auto
  from takeWhile_dropWhile_id [of "\<lambda>c. \<not> isQuote c" s3] d
  have s3: "s3 = v @ q' # s4"
    by simp
  from d(3) have q': "isQuote q'"
    by (metis (mono_tags, lifting) dropWhile_eq_Cons_conv)
  from d(1) have noq: "\<not> list_ex isQuote v"
    by (auto simp: list_ex_iff dest: set_takeWhileD)
  have "\<exists>ws4 post. s4 = ws4 @ post \<and> spaces ws4 \<and> atLineEnd post"
  proof -
    obtain xs r where run: "spaceRun s4 = (xs, r)"
      by (cases "spaceRun s4")
    from spaceRun_sound [OF run] have s4: "s4 = concat xs @ r" and xs: "set xs \<subseteq> set spaceChars"
      by simp_all
    from e show ?thesis
    proof
      assume "skipSpaces s4 = []"
      with run s4 xs show ?thesis
        by (auto simp: skipSpaces_def spaces_def atLineEnd_def)
    next
      assume "list_ex (\<lambda>x. x \<in> set lineTerminators) (fst (spaceRun s4))"
      with run obtain t where t: "t \<in> set xs" "t \<in> set lineTerminators"
        by (auto simp: list_ex_iff)
      from split_list [OF t(1)] obtain ys zs where yz: "xs = ys @ t # zs"
        by blast
      with s4 have "s4 = concat ys @ (t @ concat zs @ r)"
        by simp
      moreover from yz xs have "spaces (concat ys)"
        by (auto simp: spaces_def)
      moreover from t(2) have "atLineEnd (t @ concat zs @ r)"
        by (auto simp: atLineEnd_def)
      ultimately show ?thesis
        by blast
    qed
  qed
  then obtain ws4 post where ws4: "s4 = ws4 @ post" "spaces ws4" "atLineEnd post"
    by blast
  let ?l = "ws1 @ ''version'' @ ws2 @ ''='' @ ws3 @ [q] @ v @ [q'] @ ws4"
  have "s = ?l @ post"
    using ws1(2) s1 ws2(2) ws3(2) s3 ws4(1) by simp
  moreover have "versionLine v ?l"
    unfolding versionLine_def using ws1(1) ws2(1) ws3(1) ws4(2) c(2) q' d(2) noq by blast
  ultimately show ?thesis
    using ws4(3) by blast
qed

lemma lineStart_iff: "lineStart pre \<longleftrightarrow> atLineStart pre"
  by (auto simp: lineStart_def atLineStart_def list_ex_iff suffix_def)

lemma versionLineIn_iff:
  "versionLineIn content i v \<longleftrightarrow>
     i \<le> length content \<and> lineStart (take i content) \<and> matchVersionAt (drop i content) = Some v"
proof
  assume "versionLineIn content i v"
  then obtain pre l post where
    "content = pre @ l @ post" "length pre = i" "atLineStart pre" "versionLine v l" "atLineEnd post"
    by (auto simp: versionLineIn_def)
  then show "i \<le> length content \<and> lineStart (take i content)
      \<and> matchVersionAt (drop i content) = Some v"
    by (auto simp: lineStart_iff matchVersionAt_complete)
next
  assume r: "i \<le> length content \<and> lineStart (take i content)
      \<and> matchVersionAt (drop i content) = Some v"
  then obtain l post where "drop i content = l @ post" "versionLine v l" "atLineEnd post"
    using matchVersionAt_sound by blast
  with r append_take_drop_id [of i content] show "versionLineIn content i v"
    unfolding versionLineIn_def lineStart_iff
    by (intro exI [of _ "take i content"] exI [of _ l] exI [of _ post]) auto
qed

lemma versionMatch_Some_iff:
  "versionMatch content = Some v \<longleftrightarrow>
     (\<exists>i. versionLineIn content i v \<and> (\<forall>j<i. \<forall>v'. \<not> versionLineIn content j v'))"
proof
  assume m: "versionMatch content = Some v"
  then obtain i where
    f: "List.find (\<lambda>i. lineStart (take i content) \<and> matchVersionAt (drop i content) \<noteq> None)
          [0 ..< Suc (length content)] = Some i"
    and v: "matchVersionAt (drop i content) = Some v"
    by (auto simp: versionMatch_def split: option.splits)
  from f obtain k where k: "k < Suc (length content)" "i = [0 ..< Suc (length content)] ! k"
    "lineStart (take i content)"
    "\<forall>j<k. \<not> (lineStart (take ([0 ..< Suc (length content)] ! j) content)
        \<and> matchVersionAt (drop ([0 ..< Suc (length content)] ! j) content) \<noteq> None)"
    unfolding find_Some_iff by auto
  from k(1,2) have ik: "i = k"
    by (metis add_0 nth_upt)
  have "\<forall>j<i. \<not> (lineStart (take j content) \<and> matchVersionAt (drop j content) \<noteq> None)"
  proof (intro allI impI)
    fix j assume "j < i"
    with ik k(1) have "j < k" "[0 ..< Suc (length content)] ! j = j"
      by (simp_all del: upt_Suc)
    with k(4) show "\<not> (lineStart (take j content) \<and> matchVersionAt (drop j content) \<noteq> None)"
      by metis
  qed
  with k(1,3) ik v show "\<exists>i. versionLineIn content i v \<and> (\<forall>j<i. \<forall>v'. \<not> versionLineIn content j v')"
    by (intro exI [of _ i]) (auto simp: versionLineIn_iff)
next
  assume "\<exists>i. versionLineIn content i v \<and> (\<forall>j<i. \<forall>v'. \<not> versionLineIn content j v')"
  then obtain i where i: "i \<le> length content" "lineStart (take i content)"
    "matchVersionAt (drop i content) = Some v"
    and first: "\<forall>j<i. \<not> (lineStart (take j content) \<and> matchVersionAt (drop j content) \<noteq> None)"
    by (auto simp: versionLineIn_iff)
  have "List.find (\<lambda>i. lineStart (take i content) \<and> matchVersionAt (drop i content) \<noteq> None)
          [0 ..< Suc (length content)] = Some i"
    unfolding find_Some_iff
  proof (intro exI [of _ i] conjI allI impI)
    show "i < length [0 ..< Suc (length content)]" using i(1) by simp
    show "lineStart (take ([0 ..< Suc (length content)] ! i) content)"
      using i(1,2) by (simp del: upt_Suc)
    show "matchVersionAt (drop ([0 ..< Suc (length content)] ! i) content) \<noteq> None"
      using i(1,3) by (simp del: upt_Suc)
    show "i = [0 ..< Suc (length content)] ! i"
      using i(1) by (simp del: upt_Suc)
    fix j assume "j < i"
    with i(1) first
    show "\<not> (lineStart (take ([0 ..< Suc (length content)] ! j) content)
        \<and> matchVersionAt (drop ([0 ..< Suc (length content)] ! j) content) \<noteq> None)"
      by (simp del: upt_Suc)
  qed
  with i(3) show "versionMatch content = Some v"
    by (simp add: versionMatch_def)
qed

lemma versionMatch_None_iff:
  "versionMatch content = None \<longleftrightarrow> (\<forall>i v. \<not> versionLineIn content i v)"
proof
  assume "versionMatch content = None"
  then have "\<forall>i\<le>length content.
      \<not> (lineStart (take i content) \<and> matchVersionAt (drop i content) \<noteq> None)"
    by (auto simp: versionMatch_def find_None_iff find_Some_iff split: option.splits)
  then show "\<forall>i v. \<not> versionLineIn content i v"
    by (auto simp: versionLineIn_iff)
next
  assume none: "\<forall>i v. \<not> versionLineIn content i v"
  show "versionMatch content = None"
  proof (cases "versionMatch content")
    case (Some v)
    with none show ?thesis
      unfolding versionMatch_Some_iff by blast
  qed simp
qed

text \<open>The positions before \<open>i\<close>, as a list that can be run through.\<close>

lemma no_versionLine_before:
  "(\<forall>j<i. \<forall>v'. \<not> versionLineIn content j v') \<longleftrightarrow>
     list_all
       (\<lambda>j. \<not> (j \<le> length content \<and> lineStart (take j content)
                \<and> matchVersionAt (drop j content) \<noteq> None))
       [0 ..< i]"
  by (auto simp: list_all_iff versionLineIn_iff)

lemma first_versionLine:
  assumes "versionLineIn content i v"
  shows "\<exists>i v. versionLineIn content i v \<and> (\<forall>j<i. \<forall>v'. \<not> versionLineIn content j v')"
proof -
  define k where "k = (LEAST i. \<exists>v. versionLineIn content i v)"
  from assms have "\<exists>i. \<exists>v. versionLineIn content i v"
    by blast
  from LeastI_ex [OF this] have "\<exists>v. versionLineIn content k v"
    unfolding k_def .
  moreover have "\<forall>j<k. \<forall>v'. \<not> versionLineIn content j v'"
    unfolding k_def using not_less_Least by blast
  ultimately show ?thesis
    by blast
qed

lemma readJsonFile_exists: "readJsonFile env fs p = Inr j \<Longrightarrow> existsSync fs p"
  by (auto simp: readJsonFile_def readFileSync_def existsSync_def
      split: sum.splits fileEntry.splits)

lemma packageVersion_python:
  assumes "fs (join env [w, r, ''pyproject.toml'']) = Contents content"
  shows "packageVersion env fs w r True python =
     (case versionMatch content of
        Some v \<Rightarrow> Inr (Some (''v'' @ replaceDots v), [Info (''Using pyproject.toml version: '' @ v)])
      | None \<Rightarrow> Inr (None, [Warn ''pyproject.toml found but no version field detected'']))"
  using assms by (simp add: packageVersion_def Let_def existsSync_def readFileSync_def)

lemma packageVersion_node:
  assumes "readJsonFile env fs (join env [w, r, ''package.json'']) = Inr (JObj members)"
    and "map_of members ''version'' = Some (JStr ver)" and "ver \<noteq> []"
  shows "packageVersion env fs w r True node =
     Inr (Some (''v'' @ replaceDots ver), [Info (''Using package.json version: '' @ ver)])"
  using assms readJsonFile_exists [OF assms(1)] by (simp add: packageVersion_def Let_def)

text \<open>
  Claim C6, as amended. The tag is the letter \<^verbatim>\<open>v\<close> before the version with every dot replaced
  by a hyphen: \<open>replaceDots\<close> keeps the length, puts a hyphen where a dot stands and keeps every
  other character. A JSON manifest whose \<^verbatim>\<open>version\<close> is a string that is not empty gives that
  tag, so \<^verbatim>\<open>1.2.3\<close> gives \<^verbatim>\<open>v1-2-3\<close>. A TOML manifest resolves to the value of the version line
  that stands first in it, the one with no version line at an earlier position: a full line
  \<^verbatim>\<open>version = "0.4.0"\<close>, with either quote on either side and any white space around the word,
  the equals sign and the value, gives \<^verbatim>\<open>v0-4-0\<close> when it is the first version line of the
  manifest. Every manifest with a version line has a first one. A TOML manifest with no
  version line gives no tag and exactly one warning.
\<close>

theorem manifest_version_tag:
  "length (replaceDots s) = length s
 \<and> (\<forall>k<length s. replaceDots s ! k = (if s ! k = CHR ''.'' then CHR ''-'' else s ! k))
 \<and> (readJsonFile env fs (join env [w, r, ''package.json'']) = Inr (JObj members)
      \<and> map_of members ''version'' = Some (JStr ver) \<and> ver \<noteq> []
    \<longrightarrow> packageVersion env fs w r True node =
          Inr (Some (''v'' @ replaceDots ver), [Info (''Using package.json version: '' @ ver)]))
 \<and> ''v'' @ replaceDots ''1.2.3'' = ''v1-2-3''
 \<and> (fs (join env [w, r, ''pyproject.toml'']) = Contents content
      \<and> versionLineIn content i v \<and> (\<forall>j<i. \<forall>v'. \<not> versionLineIn content j v')
    \<longrightarrow> packageVersion env fs w r True python =
          Inr (Some (''v'' @ replaceDots v), [Info (''Using pyproject.toml version: '' @ v)]))
 \<and> ''v'' @ replaceDots ''0.4.0'' = ''v0-4-0''
 \<and> (versionLineIn content i v
    \<longrightarrow> (\<exists>i' v'. versionLineIn content i' v'
                \<and> (\<forall>j<i'. \<forall>v''. \<not> versionLineIn content j v'')))
 \<and> (fs (join env [w, r, ''pyproject.toml'']) = Contents content
      \<and> (\<forall>i v. \<not> versionLineIn content i v)
    \<longrightarrow> packageVersion env fs w r True python =
          Inr (None, [Warn ''pyproject.toml found but no version field detected'']))"
proof (intro conjI impI)
  show "length (replaceDots s) = length s"
    by (simp add: replaceDots_def)
next
  show "\<forall>k<length s. replaceDots s ! k = (if s ! k = CHR ''.'' then CHR ''-'' else s ! k)"
    by (simp add: replaceDots_def)
next
  assume "readJsonFile env fs (join env [w, r, ''package.json'']) = Inr (JObj members)
      \<and> map_of members ''version'' = Some (JStr ver) \<and> ver \<noteq> []"
  then show "packageVersion env fs w r True node =
          Inr (Some (''v'' @ replaceDots ver), [Info (''Using package.json version: '' @ ver)])"
    by (simp add: packageVersion_node)
next
  show "''v'' @ replaceDots ''1.2.3'' = ''v1-2-3''"
    by (simp add: replaceDots_def)
next
  show "''v'' @ replaceDots ''0.4.0'' = ''v0-4-0''"
    by (simp add: replaceDots_def)
next
  assume h: "fs (join env [w, r, ''pyproject.toml'']) = Contents content
      \<and> versionLineIn content i v \<and> (\<forall>j<i. \<forall>v'. \<not> versionLineIn content j v')"
  then have "versionMatch content = Some v"
    unfolding versionMatch_Some_iff by blast
  moreover from h have "fs (join env [w, r, ''pyproject.toml'']) = Contents content"
    by blast
  ultimately show "packageVersion env fs w r True python =
          Inr (Some (''v'' @ replaceDots v), [Info (''Using pyproject.toml version: '' @ v)])"
    using packageVersion_python [of fs env w r content] by simp
next
  assume "versionLineIn content i v"
  then show "\<exists>i' v'. versionLineIn content i' v'
                \<and> (\<forall>j<i'. \<forall>v''. \<not> versionLineIn content j v'')"
    by (rule first_versionLine)
next
  assume h: "fs (join env [w, r, ''pyproject.toml'']) = Contents content
      \<and> (\<forall>i v. \<not> versionLineIn content i v)"
  then have "versionMatch content = None"
    unfolding versionMatch_None_iff by blast
  moreover from h have "fs (join env [w, r, ''pyproject.toml'']) = Contents content"
    by blast
  ultimately show "packageVersion env fs w r True python =
          Inr (None, [Warn ''pyproject.toml found but no version field detected''])"
    using packageVersion_python [of fs env w r content] by simp
qed

text \<open>
  A \<^verbatim>\<open>package.json\<close> with the version \<^verbatim>\<open>1.2.3\<close>; a \<^verbatim>\<open>pyproject.toml\<close> whose second line is
  \<^verbatim>\<open>version = "0.4.0"\<close>; one that begins with a byte order mark and ends its version line with
  U+2028; a \<^verbatim>\<open>pyproject.toml\<close> that is the line \<^verbatim>\<open>[project]\<close>; and one whose only line is
  \<^verbatim>\<open>version = "1.0.0" # release\<close>, which is no version line, since the line goes on after the
  closing quote.
\<close>

theorem manifest_version_tag_witness:
  "packageVersion sampleEnv nodeFiles ''/ws'' ''apps/svc'' True node
     = Inr (Some ''v1-2-3'', [Info ''Using package.json version: 1.2.3''])
   \<and> versionLineIn pyprojectText 10 ''0.4.0''
   \<and> packageVersion sampleEnv pythonFiles ''/ws'' ''apps/svc'' True python
       = Inr (Some ''v0-4-0'', [Info ''Using pyproject.toml version: 0.4.0''])
   \<and> versionLineIn markedText 0 ''0.4.0''
   \<and> packageVersion sampleEnv markedFiles ''/ws'' ''apps/svc'' True python
       = Inr (Some ''v0-4-0'', [Info ''Using pyproject.toml version: 0.4.0''])
   \<and> packageVersion sampleEnv unversionedPythonFiles ''/ws'' ''apps/svc'' True python
       = Inr (None, [Warn ''pyproject.toml found but no version field detected''])
   \<and> packageVersion sampleEnv commentedVersionFiles ''/ws'' ''apps/svc'' True python
       = Inr (None, [Warn ''pyproject.toml found but no version field detected''])
   \<and> replaceDots ''1.2.3'' ! 1 = CHR ''-'' \<and> replaceDots ''1.2.3'' ! 2 = CHR ''2''"
proof -
  have json: "readJsonFile sampleEnv nodeFiles (join sampleEnv [''/ws'', ''apps/svc'', ''package.json''])
      = Inr (JObj [(''version'', JStr ''1.2.3'')])"
    by (simp add: readJsonFile_def readFileSync_def nodeFiles_def sampleEnv_def sampleJson_def)
  from manifest_version_tag
         [where env = sampleEnv and fs = nodeFiles and w = "''/ws''" and r = "''apps/svc''"
            and members = "[(''version'', JStr ''1.2.3'')]" and ver = "''1.2.3''"] json
  have a: "packageVersion sampleEnv nodeFiles ''/ws'' ''apps/svc'' True node
     = Inr (Some ''v1-2-3'', [Info ''Using package.json version: 1.2.3''])"
    by simp
  have toml: "pythonFiles (join sampleEnv [''/ws'', ''apps/svc'', ''pyproject.toml''])
      = Contents pyprojectText"
    by (simp add: pythonFiles_def sampleEnv_def)
  have line: "versionLineIn pyprojectText 10 ''0.4.0''"
    unfolding versionLineIn_iff by code_simp
  have first: "\<forall>j<10. \<forall>v'. \<not> versionLineIn pyprojectText j v'"
    unfolding no_versionLine_before by code_simp
  from manifest_version_tag
         [where env = sampleEnv and fs = pythonFiles and w = "''/ws''" and r = "''apps/svc''"
            and content = pyprojectText and i = 10 and v = "''0.4.0''"]
    toml line first
  have b: "packageVersion sampleEnv pythonFiles ''/ws'' ''apps/svc'' True python
       = Inr (Some ''v0-4-0'', [Info ''Using pyproject.toml version: 0.4.0''])"
    by simp
  have marked: "markedFiles (join sampleEnv [''/ws'', ''apps/svc'', ''pyproject.toml''])
      = Contents markedText"
    by (simp add: markedFiles_def sampleEnv_def)
  have markedLine: "versionLineIn markedText 0 ''0.4.0''"
    unfolding versionLineIn_iff by code_simp
  from manifest_version_tag
         [where env = sampleEnv and fs = markedFiles and w = "''/ws''" and r = "''apps/svc''"
            and content = markedText and i = 0 and v = "''0.4.0''"]
    marked markedLine
  have c: "packageVersion sampleEnv markedFiles ''/ws'' ''apps/svc'' True python
       = Inr (Some ''v0-4-0'', [Info ''Using pyproject.toml version: 0.4.0''])"
    by simp
  have plain: "unversionedPythonFiles (join sampleEnv [''/ws'', ''apps/svc'', ''pyproject.toml''])
      = Contents (''[project]'' @ [CHR 0x0A])"
    by (simp add: unversionedPythonFiles_def sampleEnv_def)
  have "versionMatch (''[project]'' @ [CHR 0x0A]) = None"
    by code_simp
  then have noLine: "\<forall>i v. \<not> versionLineIn (''[project]'' @ [CHR 0x0A]) i v"
    unfolding versionMatch_None_iff .
  from manifest_version_tag
         [where env = sampleEnv and fs = unversionedPythonFiles and w = "''/ws''"
            and r = "''apps/svc''" and content = "''[project]'' @ [CHR 0x0A]"]
    plain noLine
  have d: "packageVersion sampleEnv unversionedPythonFiles ''/ws'' ''apps/svc'' True python
       = Inr (None, [Warn ''pyproject.toml found but no version field detected''])"
    by blast
  have commented: "commentedVersionFiles (join sampleEnv [''/ws'', ''apps/svc'', ''pyproject.toml''])
      = Contents commentedVersionText"
    by (simp add: commentedVersionFiles_def sampleEnv_def)
  have "versionMatch commentedVersionText = None"
    by code_simp
  then have noFullLine: "\<forall>i v. \<not> versionLineIn commentedVersionText i v"
    unfolding versionMatch_None_iff .
  from manifest_version_tag
         [where env = sampleEnv and fs = commentedVersionFiles and w = "''/ws''"
            and r = "''apps/svc''" and content = commentedVersionText]
    commented noFullLine
  have e: "packageVersion sampleEnv commentedVersionFiles ''/ws'' ''apps/svc'' True python
       = Inr (None, [Warn ''pyproject.toml found but no version field detected''])"
    by blast
  have dots: "\<forall>k<length ''1.2.3''. replaceDots ''1.2.3'' ! k =
      (if ''1.2.3'' ! k = CHR ''.'' then CHR ''-'' else ''1.2.3'' ! k)"
    using manifest_version_tag [where s = "''1.2.3''"] by blast
  from dots [rule_format, of 1] dots [rule_format, of 2]
  have f: "replaceDots ''1.2.3'' ! 1 = CHR ''-''" "replaceDots ''1.2.3'' ! 2 = CHR ''2''"
    by simp_all
  from a line b markedLine c d e f show ?thesis
    by simp
qed

text \<open>
  Claim C6 as it was stated fails where an earlier line is a version line too: the manifest
  holds the full line \<^verbatim>\<open>version = "0.4.0"\<close>, as its second line, and the tag is \<^verbatim>\<open>v9-9-9\<close>, that
  of its first line.
\<close>

theorem later_version_line_counterexample:
  "versionLineIn laterVersionText 18 ''0.4.0''
   \<and> packageVersion sampleEnv laterVersionFiles ''/ws'' ''apps/svc'' True python
       = Inr (Some ''v9-9-9'', [Info ''Using pyproject.toml version: 9.9.9''])"
proof -
  have line: "versionLineIn laterVersionText 18 ''0.4.0''"
    unfolding versionLineIn_iff by code_simp
  have found: "versionMatch laterVersionText = Some ''9.9.9''"
    by code_simp
  have "laterVersionFiles (join sampleEnv [''/ws'', ''apps/svc'', ''pyproject.toml''])
      = Contents laterVersionText"
    by (simp add: laterVersionFiles_def sampleEnv_def)
  from packageVersion_python [of laterVersionFiles sampleEnv "''/ws''" "''apps/svc''", OF this] found
  have "packageVersion sampleEnv laterVersionFiles ''/ws'' ''apps/svc'' True python
       = Inr (Some ''v9-9-9'', [Info ''Using pyproject.toml version: 9.9.9''])"
    by (simp add: replaceDots_def)
  with line show ?thesis
    by simp
qed

section \<open>Secrets\<close>

lemma validSecrets_filter:
  "validSecrets ss = map Str (filter (\<lambda>s. CHR ''='' \<in> set s \<and> CHR '':'' \<in> set s) ss)"
  by (induction ss) (auto simp: validSecrets_def checkSecret_def includesChar_def)

lemma secretWarnings_filter:
  "secretWarnings ss =
     map invalidSecretWarning (filter (\<lambda>s. \<not> (CHR ''='' \<in> set s \<and> CHR '':'' \<in> set s)) ss)"
  by (induction ss) (auto simp: secretWarnings_def checkSecret_def includesChar_def)

lemma hasSecretForm_iff:
  "hasSecretForm s \<longleftrightarrow> (\<exists>n x v. s = n @ ''='' @ x @ '':'' @ v)"
proof
  assume "hasSecretForm s"
  then have c: "CHR '':'' \<in> set (dropWhile (\<lambda>c. c \<noteq> CHR ''='') s)"
    by (simp add: hasSecretForm_def)
  then obtain r where r: "dropWhile (\<lambda>c. c \<noteq> CHR ''='') s = CHR ''='' # r"
    by (cases "dropWhile (\<lambda>c. c \<noteq> CHR ''='') s") (auto simp: dropWhile_eq_Cons_conv)
  with c have "CHR '':'' \<in> set r" by simp
  then obtain x v where "r = x @ CHR '':'' # v"
    by (auto simp: in_set_conv_decomp)
  with r have "s = takeWhile (\<lambda>c. c \<noteq> CHR ''='') s @ ''='' @ x @ '':'' @ v"
    using takeWhile_dropWhile_id [of "\<lambda>c. c \<noteq> CHR ''=''" s] by simp
  then show "\<exists>n x v. s = n @ ''='' @ x @ '':'' @ v" by blast
next
  assume "\<exists>n x v. s = n @ ''='' @ x @ '':'' @ v"
  then obtain n x v where s: "s = n @ ''='' @ x @ '':'' @ v" by blast
  show "hasSecretForm s"
    unfolding s hasSecretForm_def by (auto simp: dropWhile_append)
qed

lemma hasSecretForm_kept: "hasSecretForm s \<Longrightarrow> CHR ''='' \<in> set s \<and> CHR '':'' \<in> set s"
  unfolding hasSecretForm_iff by auto




lemma deployParts_secrets:
  "deployParts options n pv (validSecrets ss) ! 19 =
     (if filter (\<lambda>s. CHR ''='' \<in> set s \<and> CHR '':'' \<in> set s) ss = [] then Bool False
      else Str (''--set-secrets=''
                @ joinWith '','' (filter (\<lambda>s. CHR ''='' \<in> set s \<and> CHR '':'' \<in> set s) ss)))"
  by (simp add: deployParts_def Let_def validSecrets_filter jsAnd_def comp_def)

lemma deployExecutor2_Inr:
  assumes "deployExecutor2 env fs options context = Inr r"
  shows "\<exists>pv cwd. last (commands r) =
           (buildCommand env
              (deployParts options (nameOf2 options context) pv (validSecrets (secretsOf options))),
            cwd)"
    and "\<exists>rest. logged2 r = secretWarnings (secretsOf options) @ rest"
  using assms
  by (auto simp: deployExecutor2_def Let_def split: option.splits sum.splits if_splits)

lemma deployExecutor2_secrets_abort:
  "isl (deployExecutor2 env fs (options\<lparr>secrets := x\<rparr>) context)
     = isl (deployExecutor2 env fs options context)"
  by (simp add: deployExecutor2_def Let_def buildSubmitParts_def nameOf2_def
      split: option.splits sum.splits)

lemma sample_secret_run:
  "deployExecutor2 sampleCore emptyFiles (secretOptions [''DB=db-pass:1'', ''bad'']) sampleContext =
     Inr \<lparr> commands =
             [(''gcloud beta run deploy svc --source=./ --project=p1 --platform=managed --memory=128Mi --region=us-central1 --min-instances=0 --max-instances=10 --concurrency=250 --allow-unauthenticated --set-secrets=DB=db-pass:1 --quiet'',
               Some ''/ws/dist/apps/svc'')],
           logged2 = [invalidSecretWarning ''bad'', Info ''Using secrets, use gcloud beta''],
           filesAfter2 = emptyFiles \<rparr>"
  by (simp add: deployExecutor2_def sampleCore_def sampleContext_def sampleProject_def
      secretOptions_def nameOf2_def secretsOf_def orElse_def stageDockerfile_def
      packageVersion2_def deployParts_def gcloudCommand_def validSecrets_def secretWarnings_def
      checkSecret_def includesChar_def jsAnd_def numberToString_def setEnvVars_def Let_def)


text \<open>
  Claim C9, as amended. In the executor with secrets, an entry that lacks an equals sign or
  lacks a colon is left out of the value of \<^verbatim>\<open>--set-secrets\<close> and logged as a warning, and the run
  is not ended for it: whether a run ends in an error does not depend on the secrets. Every
  entry with both characters is kept, in the order of the list, and so is every entry of the
  form \<^verbatim>\<open>NAME=SECRET:VERSION\<close>. The deployment goes on with the entries that are kept:
  \<^verbatim>\<open>--set-secrets=\<close> and the kept entries with commas between them, or no such part when none is
  kept.
\<close>

theorem invalid_secrets_dropped_with_warning:
  "validSecrets ss = map Str (filter (\<lambda>s. CHR ''='' \<in> set s \<and> CHR '':'' \<in> set s) ss)
 \<and> secretWarnings ss =
     map invalidSecretWarning (filter (\<lambda>s. \<not> (CHR ''='' \<in> set s \<and> CHR '':'' \<in> set s)) ss)
 \<and> (hasSecretForm s \<longrightarrow> CHR ''='' \<in> set s \<and> CHR '':'' \<in> set s)
 \<and> deployParts options n pv (validSecrets ss) ! 19 =
     (if filter (\<lambda>s. CHR ''='' \<in> set s \<and> CHR '':'' \<in> set s) ss = [] then Bool False
      else Str (''--set-secrets=''
                @ joinWith '','' (filter (\<lambda>s. CHR ''='' \<in> set s \<and> CHR '':'' \<in> set s) ss)))
 \<and> (deployExecutor2 env fs options2 context = Inr r \<longrightarrow>
      (\<exists>rest. logged2 r = secretWarnings (secretsOf options2) @ rest)
      \<and> (\<exists>pv' cwd. last (commands r) =
            (buildCommand env
               (deployParts options2 (nameOf2 options2 context) pv'
                  (validSecrets (secretsOf options2))),
             cwd)))
 \<and> isl (deployExecutor2 env fs (options2\<lparr>secrets := x\<rparr>) context)
     = isl (deployExecutor2 env fs options2 context)"
  using validSecrets_filter [of ss] secretWarnings_filter [of ss] hasSecretForm_kept [of s]
    deployParts_secrets [of _ n pv ss] deployExecutor2_Inr [of env fs options2 "context" r]
    deployExecutor2_secrets_abort [of env fs x options2 "context"]
  by blast

text \<open>One entry of the form and one without it.\<close>

theorem invalid_secrets_dropped_with_warning_witness:
  "hasSecretForm ''DB=db-pass:1''
   \<and> validSecrets [''DB=db-pass:1'', ''bad''] = [Str ''DB=db-pass:1'']
   \<and> secretWarnings [''DB=db-pass:1'', ''bad''] = [invalidSecretWarning ''bad'']
   \<and> deployExecutor2 sampleCore emptyFiles (secretOptions [''DB=db-pass:1'', ''bad''])
        sampleContext =
       Inr \<lparr> commands =
               [(''gcloud beta run deploy svc --source=./ --project=p1 --platform=managed --memory=128Mi --region=us-central1 --min-instances=0 --max-instances=10 --concurrency=250 --allow-unauthenticated --set-secrets=DB=db-pass:1 --quiet'',
                 Some ''/ws/dist/apps/svc'')],
             logged2 = [invalidSecretWarning ''bad'', Info ''Using secrets, use gcloud beta''],
             filesAfter2 = emptyFiles \<rparr>
   \<and> (\<exists>rest. logged2 \<lparr> commands =
               [(''gcloud beta run deploy svc --source=./ --project=p1 --platform=managed --memory=128Mi --region=us-central1 --min-instances=0 --max-instances=10 --concurrency=250 --allow-unauthenticated --set-secrets=DB=db-pass:1 --quiet'',
                 Some ''/ws/dist/apps/svc'')],
             logged2 = [invalidSecretWarning ''bad'', Info ''Using secrets, use gcloud beta''],
             filesAfter2 = emptyFiles \<rparr>
        = secretWarnings (secretsOf (secretOptions [''DB=db-pass:1'', ''bad''])) @ rest)"
proof -
  let ?ss = "[''DB=db-pass:1'', ''bad'']"
  let ?r = "\<lparr> commands =
               [(''gcloud beta run deploy svc --source=./ --project=p1 --platform=managed --memory=128Mi --region=us-central1 --min-instances=0 --max-instances=10 --concurrency=250 --allow-unauthenticated --set-secrets=DB=db-pass:1 --quiet'',
                 Some ''/ws/dist/apps/svc'')],
             logged2 = [invalidSecretWarning ''bad'', Info ''Using secrets, use gcloud beta''],
             filesAfter2 = emptyFiles \<rparr>"
  have form: "hasSecretForm ''DB=db-pass:1''"
    by (simp add: hasSecretForm_def)
  note t = invalid_secrets_dropped_with_warning
             [of ?ss "''DB=db-pass:1''" _ _ _ sampleCore emptyFiles "secretOptions ?ss"
                sampleContext ?r]
  from t have "validSecrets ?ss
      = map Str (filter (\<lambda>s. CHR ''='' \<in> set s \<and> CHR '':'' \<in> set s) ?ss)"
    by blast
  then have kept: "validSecrets ?ss = [Str ''DB=db-pass:1'']"
    by simp
  from t have "secretWarnings ?ss
      = map invalidSecretWarning
          (filter (\<lambda>s. \<not> (CHR ''='' \<in> set s \<and> CHR '':'' \<in> set s)) ?ss)"
    by blast
  then have warned: "secretWarnings ?ss = [invalidSecretWarning ''bad'']"
    by simp
  from t sample_secret_run
  have "\<exists>rest. logged2 ?r = secretWarnings (secretsOf (secretOptions ?ss)) @ rest"
    by blast
  with form kept warned sample_secret_run show ?thesis
    by blast
qed

text \<open>
  Claim C9 as it was stated fails on the entry \<^verbatim>\<open>A:B=C\<close>: it has no colon after its equals
  sign, so it is not of the form \<^verbatim>\<open>NAME=SECRET:VERSION\<close>, and it is kept without a warning.
\<close>

theorem malformed_secret_kept_counterexample:
  "\<not> hasSecretForm ''A:B=C''
   \<and> validSecrets [''A:B=C''] = [Str ''A:B=C'']
   \<and> secretWarnings [''A:B=C''] = []"
  by (simp add: hasSecretForm_def validSecrets_def secretWarnings_def checkSecret_def
      includesChar_def)



end
